theory Spec2Isabelle
  imports Main
begin

text \<open>
  The Clawatch plugin of OpenClaw: the session connector (class \<open>ClawatchConnector\<close>),
  the session runtime built on it (\<open>createClawatchRuntime\<close>) and the session keys of
  \<open>config.ts\<close>, as functions on an explicit state, and the properties of its
  specification proved or refuted on them.
\<close>

section \<open>Session keys (config.ts)\<close>

text \<open>
  JavaScript strings are modelled as \<open>string\<close>. The two functions below are the
  source's \<open>getSessionKey\<close> and \<open>parseImeiFromSessionKey\<close>; the regular expression
  \<^verbatim>\<open>/^(?:session:)?clawatch:(\d{15})$/\<close> is written out as the matcher it denotes:
  the optional group is tried first and the matcher backtracks to the empty alternative,
  \<^verbatim>\<open>\d\<close> is an ASCII digit, and \<^verbatim>\<open>$\<close> (no flags) is the end of the input.
\<close>

definition DEFAULT_SESSION_PREFIX :: string where
  "DEFAULT_SESSION_PREFIX = ''clawatch:''"

definition getSessionKey :: "string \<Rightarrow> string \<Rightarrow> string" where
  "getSessionKey prefix i = prefix @ i"

definition is_digit :: "char \<Rightarrow> bool" where
  "is_digit c = (c \<in> set ''0123456789'')"

text \<open>\<^verbatim>\<open>clawatch:(\d{15})$\<close> against the rest of the input; the result is group 1.\<close>

definition match_clawatch :: "string \<Rightarrow> string option" where
  "match_clawatch r =
     (if take 9 r = ''clawatch:'' \<and> length (drop 9 r) = 15 \<and> list_all is_digit (drop 9 r)
      then Some (drop 9 r) else None)"

definition parseImeiFromSessionKey :: "string \<Rightarrow> string option" where
  "parseImeiFromSessionKey sessionKey =
     (if sessionKey = [] then None
      else case (if take 8 sessionKey = ''session:'' then match_clawatch (drop 8 sessionKey)
                 else None) of
             Some m \<Rightarrow> Some m
           | None \<Rightarrow> match_clawatch sessionKey)"

text \<open>A valid IMEI: exactly 15 ASCII digits (\<^verbatim>\<open>/^\d{15}$/\<close>).\<close>

definition valid_imei :: "string \<Rightarrow> bool" where
  "valid_imei i = (length i = 15 \<and> list_all is_digit i)"


section \<open>Wire frames (types.ts)\<close>

text \<open>
  A JSON value that the code only carries along (the device context of a message, the
  parameters of a control command) is kept as its text.
\<close>

type_synonym json = string

record WatchInfo =
  imei :: string
  label :: "string option"

text \<open>
  The union \<open>ClawatchWSFrame\<close>, one constructor per \<open>type\<close> tag, the fields in the order
  of the type declarations: \<open>Register token client version\<close>, \<open>Registered watches\<close>,
  \<open>Error code message id\<close>, \<open>Unbound imei reason\<close>,
  \<open>Message id imei text timestamp isCommand context\<close>, \<open>Reply id text done\<close>,
  \<open>Control id action imei params\<close>, \<open>ControlAck id ok\<close>, \<open>Push id imei text\<close>.
  \<open>Unknown t\<close> is a parsed value whose \<open>type\<close> property \<open>t\<close> is none of the tags
  (\<open>None\<close> when it has no such property). Frames are taken to be well-typed: a frame with
  a known tag carries the fields its type declares.
\<close>

datatype frame =
    Register string string string
  | Registered "WatchInfo list"
  | Error "string option" string "string option"
  | Ping
  | Pong
  | Unbound string "string option"
  | Message string string string "int option" "bool option" "json option"
  | Reply string string bool
  | Control string string string "json option"
  | ControlAck string bool
  | Push string string string
  | Unknown "string option"

text \<open>
  What \<open>JSON.parse(event.data)\<close> does with a received unit: it throws (\<open>NotJson\<close>),
  returns \<open>null\<close> (\<open>JsonNull\<close>, on which reading \<open>frame.type\<close> throws), or returns a
  value read as a frame.
\<close>

datatype payload = NotJson | JsonNull | JsonFrame frame

definition PLUGIN_VERSION :: string where
  "PLUGIN_VERSION = ''0.1.22''"

section \<open>State of the connector and of the runtime (runtime.ts, connector.ts)\<close>

datatype ready_state = CONNECTING | OPEN | CLOSING | CLOSED

datatype promise_state = Pending | Resolved | Rejected string

text \<open>
  \<open>doConnect\<close> awaits the promise of \<open>connector.connect()\<close>; it was called either by the
  runtime's \<open>connect()\<close> or by \<open>attemptReconnect()\<close>, whose \<open>.catch\<close> then runs on a
  rejection.
\<close>

datatype caller = ByConnect | ByReconnect

text \<open>
  The fields of class \<open>ClawatchConnector\<close>, and the objects its \<open>connect()\<close> creates
  (the runtime calls \<open>connect()\<close> once per connector). \<open>socket\<close> is the \<open>WebSocket\<close>
  created by \<open>connect()\<close>, given by its \<open>readyState\<close> (\<open>None\<close> before it is
  constructed); \<open>ws\<close> tells whether the field \<open>this.ws\<close> holds it (\<open>False\<close> is
  \<open>null\<close>): the socket lives on, and fires its events, after the handle is cleared.
  \<open>pingInterval\<close> and \<open>timeout\<close> tell whether the heartbeat interval and the 15 s
  connect timer are pending. \<open>promise\<close> is the promise returned by \<open>connect()\<close> and
  \<open>awaited\<close> the caller of the \<open>doConnect\<close> that awaits it.
\<close>

record ClawatchConnector =
  url :: string
  token :: string
  socket :: "ready_state option"
  ws :: bool
  pingInterval :: bool
  reconnectAttempts :: nat
  timeout :: bool
  promise :: promise_state
  awaited :: caller

definition maxReconnectAttempts :: nat where
  "maxReconnectAttempts = 0"

definition baseReconnectMs :: nat where
  "baseReconnectMs = 1000"

definition maxReconnectMs :: nat where
  "maxReconnectMs = 5 * 60 * 1000"

text \<open>The callbacks given to \<open>setTimeout\<close> by \<open>scheduleReconnect\<close>, \<open>doConnect\<close> and
  \<open>attemptReconnect\<close>.\<close>

datatype timer_cb = OnReconnect | ManualReconnect | RetryReconnect

text \<open>One constructor per call of \<open>callbacks.logger\<close>, with the values it interpolates.\<close>

datatype log_entry =
    Info_inbound string string
  | Info_sending_reply string string string
  | Error_message string "string option"
  | Info_registered "WatchInfo list"
  | Error_event "string option" string
  | Info_unbound string "string option"
  | Info_received string string string
  | Info_unknown_frame string
  | Info_reconnecting
  | Error_reconnect_failed string
  | Error_no_apiToken
  | Error_connect_rejected string
  | Info_manual_reconnect

text \<open>What a rejected handler promise carries: an \<open>Error\<close> object (message, stack) or any
  other value, given by its \<open>String(err)\<close>.\<close>

datatype rejection = ErrorObject string "string option" | Thrown string

record ClawatchConfig =
  apiUrl :: string
  apiToken :: "string option"
  sessionKeyPrefix :: "string option"
  socketThrows :: "string option"

text \<open>
  \<open>socketThrows\<close> is not a field of the source's configuration: it is the message of the
  exception \<open>new WebSocket(wsUrl)\<close> throws for this \<open>apiUrl\<close>, \<open>None\<close> when the
  constructor returns.

  The state: the variables closed over by \<open>createClawatchRuntime\<close> (\<open>connector\<close>, a
  reference into the store \<open>conns\<close> of every connector constructed so far;
  \<open>pairedWatches\<close>; \<open>disconnecting\<close>; \<open>sessionKeyToImei\<close>), and the effects on the
  environment: \<open>wire\<close>, the frames handed to \<open>ws.send\<close> with the connector that sent
  them; \<open>closeCalls\<close>, the connectors whose transport had \<open>close()\<close> called;
  \<open>timers\<close>, the pending \<open>setTimeout\<close> callbacks with their delays in ms;
  \<open>calls\<close>, the pending invocations of the injected \<open>onInboundMessage\<close>
  (id, imei, text, session key, context); \<open>logged\<close>, the logger's output. The injected
  logger is taken to return: it appends to \<open>logged\<close> and throws nothing.
\<close>

record world =
  connector :: "nat option"
  pairedWatches :: "WatchInfo list"
  disconnecting :: bool
  sessionKeyToImei :: "string \<rightharpoonup> string"
  conns :: "ClawatchConnector list"
  wire :: "(nat \<times> frame) list"
  closeCalls :: "nat list"
  timers :: "(nat \<times> timer_cb) list"
  calls :: "(string \<times> string \<times> string \<times> string \<times> json option) list"
  logged :: "log_entry list"

definition upd :: "nat \<Rightarrow> (ClawatchConnector \<Rightarrow> ClawatchConnector) \<Rightarrow> world \<Rightarrow> world" where
  "upd k f s = s\<lparr>conns := (conns s)[k := f (conns s ! k)]\<rparr>"

definition logger :: "log_entry \<Rightarrow> world \<Rightarrow> world" where
  "logger e s = s\<lparr>logged := logged s @ [e]\<rparr>"

definition setTimeout :: "timer_cb \<Rightarrow> nat \<Rightarrow> world \<Rightarrow> world" where
  "setTimeout cb delay s = s\<lparr>timers := timers s @ [(delay, cb)]\<rparr>"

section \<open>The connector (connector.ts)\<close>

text \<open>Every method takes the index \<open>k\<close> of its connector (\<open>this\<close>) in the store.\<close>

definition clearTimeout :: "nat \<Rightarrow> world \<Rightarrow> world" where
  "clearTimeout k s = upd k (\<lambda>c. c\<lparr>timeout := False\<rparr>) s"

definition stopPing :: "nat \<Rightarrow> world \<Rightarrow> world" where
  "stopPing k s =
     (if pingInterval (conns s ! k) then upd k (\<lambda>c. c\<lparr>pingInterval := False\<rparr>) s else s)"

definition startPing :: "nat \<Rightarrow> world \<Rightarrow> world" where
  "startPing k s = upd k (\<lambda>c. c\<lparr>pingInterval := True\<rparr>) (stopPing k s)"

text \<open>\<open>this.ws?.readyState\<close>, and \<open>this.ws.close()\<close>: closing a socket that is
  connecting or open starts the closing handshake, closing any other does nothing;
  \<open>close()\<close> without arguments throws nothing.\<close>

definition readyState :: "ClawatchConnector \<Rightarrow> ready_state option" where
  "readyState c = (if ws c then socket c else None)"

definition ws_close :: "nat \<Rightarrow> world \<Rightarrow> world" where
  "ws_close k s =
     upd k (\<lambda>c. c\<lparr>socket := (if socket c = Some CONNECTING \<or> socket c = Some OPEN
                                then Some CLOSING else socket c)\<rparr>)
       (s\<lparr>closeCalls := closeCalls s @ [k]\<rparr>)"

definition connector_send :: "nat \<Rightarrow> frame \<Rightarrow> world \<Rightarrow> world" where
  "connector_send k f s =
     (if readyState (conns s ! k) = Some OPEN then s\<lparr>wire := wire s @ [(k, f)]\<rparr> else s)"

definition connector_isConnected :: "nat \<Rightarrow> world \<Rightarrow> bool" where
  "connector_isConnected k s =
     ((case readyState (conns s ! k) of None \<Rightarrow> CLOSED | Some r \<Rightarrow> r) = OPEN)"

definition connector_disconnect :: "nat \<Rightarrow> world \<Rightarrow> world" where
  "connector_disconnect k s =
     (let s1 = stopPing k s in
      if ws (conns s1 ! k) then upd k (\<lambda>c. c\<lparr>ws := False\<rparr>) (ws_close k s1) else s1)"

text \<open>
  The delay is computed in doubles: \<open>baseReconnectMs * Math.pow(2, n)\<close> is exact until it
  overflows to \<open>Infinity\<close>, and \<open>Math.min\<close> with the cap then gives the cap, as the
  minimum over the natural numbers does.
\<close>

definition scheduleReconnect :: "nat \<Rightarrow> world \<Rightarrow> world" where
  "scheduleReconnect k s =
     (if maxReconnectAttempts > 0 \<and> reconnectAttempts (conns s ! k) \<ge> maxReconnectAttempts
      then s
      else let delay = min (baseReconnectMs * 2 ^ reconnectAttempts (conns s ! k)) maxReconnectMs
           in setTimeout OnReconnect delay
                (upd k (\<lambda>c. c\<lparr>reconnectAttempts := reconnectAttempts c + 1\<rparr>) s))"


section \<open>Reconnection in the runtime (runtime.ts)\<close>

text \<open>
  A continuation of a settled promise runs as a microtask, once the handler that settled
  it has returned and before any other event; every \<open>reject\<close> and \<open>resolve\<close> of the
  source is the last effect of its handler, so the continuation is run where the promise is
  settled. An error is given by its message; \<open>String(err)\<close> of an \<open>Error\<close> is
  \<open>Error: \<close> followed by the message (the class name of an exception of
  \<open>new WebSocket\<close> is not kept apart).
\<close>

definition attemptReconnect_catch :: "string \<Rightarrow> world \<Rightarrow> world" where
  "attemptReconnect_catch err s =
     (let s1 = logger (Error_reconnect_failed (''Error: '' @ err)) s in
      if \<not> disconnecting s1 then setTimeout RetryReconnect 2000 s1 else s1)"

text \<open>The \<open>catch\<close> block of \<open>doConnect\<close>, then the rethrown error at the caller: the
  \<open>.catch\<close> of \<open>attemptReconnect\<close>, or the rejection of the runtime's \<open>connect()\<close>
  (which changes no state here).\<close>

definition doConnect_catch :: "caller \<Rightarrow> string \<Rightarrow> world \<Rightarrow> world" where
  "doConnect_catch who err s =
     (let s1 = logger (Error_connect_rejected (''Error: '' @ err)) s;
          s2 = (if \<not> disconnecting s1 \<and> connector s1 \<noteq> None
                then setTimeout ManualReconnect 1000 s1 else s1)
      in case who of ByReconnect \<Rightarrow> attemptReconnect_catch err s2 | ByConnect \<Rightarrow> s2)"

text \<open>\<open>reject\<close> and \<open>resolve\<close> of the promise of \<open>connect()\<close>: a settled promise stays
  as it is.\<close>

definition reject :: "nat \<Rightarrow> string \<Rightarrow> world \<Rightarrow> world" where
  "reject k err s =
     (if promise (conns s ! k) = Pending
      then doConnect_catch (awaited (conns s ! k)) err (upd k (\<lambda>c. c\<lparr>promise := Rejected err\<rparr>) s)
      else s)"

definition resolve :: "nat \<Rightarrow> world \<Rightarrow> world" where
  "resolve k s =
     (if promise (conns s ! k) = Pending then upd k (\<lambda>c. c\<lparr>promise := Resolved\<rparr>) s else s)"

text \<open>\<open>ClawatchConnector.connect\<close> up to the return of the promise: the transport is
  constructed (or the constructor throws and the promise is rejected), the timeout is set
  and the handlers are installed.\<close>

definition connector_connect :: "string option \<Rightarrow> nat \<Rightarrow> world \<Rightarrow> world" where
  "connector_connect thrown k s =
     (case thrown of
        Some err \<Rightarrow> reject k err s
      | None \<Rightarrow> upd k (\<lambda>c. c\<lparr>socket := Some CONNECTING, ws := True, timeout := True\<rparr>) s)"

definition wsUrl :: "ClawatchConfig \<Rightarrow> string" where
  "wsUrl cfg = (if take 4 (apiUrl cfg) = ''http'' then ''ws'' @ drop 4 (apiUrl cfg) else apiUrl cfg)"

definition new_ClawatchConnector :: "string \<Rightarrow> string \<Rightarrow> caller \<Rightarrow> ClawatchConnector" where
  "new_ClawatchConnector u t who =
     \<lparr>url = u, token = t, socket = None, ws = False, pingInterval = False, reconnectAttempts = 0,
      timeout = False, promise = Pending, awaited = who\<rparr>"

definition no_apiToken :: string where
  "no_apiToken = ''No apiToken. Run: openclaw clawatch login <countryCode> <phoneNumber>''"

definition doConnect :: "ClawatchConfig \<Rightarrow> caller \<Rightarrow> world \<Rightarrow> world" where
  "doConnect cfg who s =
     (case (case apiToken cfg of None \<Rightarrow> None | Some t \<Rightarrow> if t = [] then None else Some t) of
        None \<Rightarrow>
          (let s1 = logger Error_no_apiToken s in
           case who of ByReconnect \<Rightarrow> attemptReconnect_catch no_apiToken s1 | ByConnect \<Rightarrow> s1)
      | Some t \<Rightarrow>
          (let k = length (conns s);
               s1 = s\<lparr>conns := conns s @ [new_ClawatchConnector (wsUrl cfg) t who],
                      connector := Some k\<rparr>
           in connector_connect (socketThrows cfg) k s1))"

definition attemptReconnect :: "ClawatchConfig \<Rightarrow> world \<Rightarrow> world" where
  "attemptReconnect cfg s =
     (if disconnecting s then s
      else doConnect cfg ByReconnect (logger Info_reconnecting (s\<lparr>connector := None\<rparr>)))"

text \<open>The three callbacks given to \<open>setTimeout\<close>.\<close>

fun run_timer :: "ClawatchConfig \<Rightarrow> timer_cb \<Rightarrow> world \<Rightarrow> world" where
  "run_timer cfg OnReconnect s = attemptReconnect cfg s"
| "run_timer cfg ManualReconnect s =
     (case connector s of
        None \<Rightarrow> s
      | Some k \<Rightarrow>
          if \<not> disconnecting s \<and> \<not> connector_isConnected k s
          then attemptReconnect cfg (logger Info_manual_reconnect s) else s)"
| "run_timer cfg RetryReconnect s = (if \<not> disconnecting s then attemptReconnect cfg s else s)"

section \<open>The runtime's callbacks (runtime.ts)\<close>

definition onRegistered :: "WatchInfo list \<Rightarrow> world \<Rightarrow> world" where
  "onRegistered watches s =
     (let s1 = s\<lparr>pairedWatches := map (\<lambda>w. \<lparr>imei = imei w, label = label w\<rparr>) watches\<rparr>
      in logger (Info_registered (pairedWatches s1)) s1)"

definition onError :: "string option \<Rightarrow> string \<Rightarrow> world \<Rightarrow> world" where
  "onError code message s = logger (Error_event code message) s"

definition onUnbound :: "string \<Rightarrow> string option \<Rightarrow> world \<Rightarrow> world" where
  "onUnbound i reason s =
     logger (Info_unbound i reason)
       (s\<lparr>pairedWatches := filter (\<lambda>w. imei w \<noteq> i) (pairedWatches s)\<rparr>)"

text \<open>\<open>handleInboundMessage\<close> up to the call of the injected handler, which is recorded
  in \<open>calls\<close>; its \<open>.then\<close> and \<open>.catch\<close> callbacks follow, each closed over the
  message's \<open>id\<close> and \<open>imei\<close>.\<close>

definition handleInboundMessage ::
  "ClawatchConfig \<Rightarrow> string \<Rightarrow> string \<Rightarrow> string \<Rightarrow> int option \<Rightarrow> bool option \<Rightarrow> json option \<Rightarrow>
   world \<Rightarrow> world" where
  "handleInboundMessage cfg m i t ts cmd ctx s =
     (let s1 = logger (Info_inbound i (take 50 t)) s;
          sessionKey = getSessionKey (case sessionKeyPrefix cfg of None \<Rightarrow> ''watch:'' | Some p \<Rightarrow> p) i;
          s2 = s1\<lparr>sessionKeyToImei := (sessionKeyToImei s1)(sessionKey \<mapsto> i)\<rparr>;
          s3 = s2\<lparr>sessionKeyToImei := (sessionKeyToImei s2)(''session:'' @ sessionKey \<mapsto> i)\<rparr>
      in s3\<lparr>calls := calls s3 @ [(m, i, t, sessionKey, ctx)]\<rparr>)"

definition handleInboundMessage_then :: "string \<Rightarrow> string \<Rightarrow> string \<Rightarrow> world \<Rightarrow> world" where
  "handleInboundMessage_then m i replyText s =
     (let s1 = logger (Info_sending_reply m i (take 50 replyText)) s in
      case connector s1 of
        None \<Rightarrow> s1
      | Some k \<Rightarrow> connector_send k (Reply m replyText True) s1)"

definition handleInboundMessage_catch :: "string \<Rightarrow> rejection \<Rightarrow> world \<Rightarrow> world" where
  "handleInboundMessage_catch m err s =
     (let errMsg = (case err of ErrorObject msg st \<Rightarrow> msg | Thrown v \<Rightarrow> v);
          errStack = (case err of ErrorObject msg st \<Rightarrow> st | Thrown v \<Rightarrow> None);
          s1 = logger (Error_message errMsg errStack) s
      in case connector s1 of
           None \<Rightarrow> s1
         | Some k \<Rightarrow> connector_send k (Error (Some ''agent_error'') errMsg (Some m)) s1)"

section \<open>Frame dispatch and transport events (connector.ts)\<close>

text \<open>The callbacks as \<open>connect()\<close> wraps them.\<close>

definition wrapped_onRegistered :: "nat \<Rightarrow> WatchInfo list \<Rightarrow> world \<Rightarrow> world" where
  "wrapped_onRegistered k watches s =
     resolve k (onRegistered watches (startPing k (clearTimeout k s)))"

definition wrapped_onError :: "nat \<Rightarrow> string option \<Rightarrow> string \<Rightarrow> world \<Rightarrow> world" where
  "wrapped_onError k code message s =
     (let s1 = onError code message (clearTimeout k s) in
      if code = Some ''invalid_token'' \<or> code = Some ''unauthorized''
      then reject k message s1 else s1)"

text \<open>The runtime passes no \<open>onControlAck\<close>; frames with an outbound tag fall to the
  \<open>default\<close> branch like any unknown tag.\<close>

fun handleFrame :: "ClawatchConfig \<Rightarrow> nat \<Rightarrow> frame \<Rightarrow> world \<Rightarrow> world" where
  "handleFrame cfg k (Registered watches) s = wrapped_onRegistered k watches s"
| "handleFrame cfg k (Error code message m) s = wrapped_onError k code message s"
| "handleFrame cfg k Pong s = s"
| "handleFrame cfg k (Unbound i reason) s = onUnbound i reason s"
| "handleFrame cfg k (Message m i t ts cmd ctx) s =
     handleInboundMessage cfg m i t ts cmd ctx (logger (Info_received m i (take 50 t)) s)"
| "handleFrame cfg k (ControlAck m ok) s = s"
| "handleFrame cfg k (Register t c v) s = logger (Info_unknown_frame ''register'') s"
| "handleFrame cfg k Ping s = logger (Info_unknown_frame ''ping'') s"
| "handleFrame cfg k (Reply m t d) s = logger (Info_unknown_frame ''reply'') s"
| "handleFrame cfg k (Control m a i ps) s = logger (Info_unknown_frame ''control'') s"
| "handleFrame cfg k (Push m i t) s = logger (Info_unknown_frame ''push'') s"
| "handleFrame cfg k (Unknown ty) s =
     logger (Info_unknown_frame (case ty of None \<Rightarrow> ''undefined'' | Some n \<Rightarrow> n)) s"

definition ws_onopen :: "nat \<Rightarrow> world \<Rightarrow> world" where
  "ws_onopen k s =
     (let s1 = upd k (\<lambda>c. c\<lparr>reconnectAttempts := 0\<rparr>) (clearTimeout k s)
      in connector_send k (Register (token (conns s1 ! k)) ''openclaw-clawatch'' PLUGIN_VERSION) s1)"

definition ws_onmessage :: "ClawatchConfig \<Rightarrow> nat \<Rightarrow> payload \<Rightarrow> world \<Rightarrow> world" where
  "ws_onmessage cfg k data s =
     (case data of
        JsonFrame f \<Rightarrow> handleFrame cfg k f s
      | _ \<Rightarrow> wrapped_onError k (Some ''invalid_frame'') ''Invalid JSON from server'' s)"

definition ws_onclose :: "nat \<Rightarrow> world \<Rightarrow> world" where
  "ws_onclose k s = scheduleReconnect k (upd k (\<lambda>c. c\<lparr>ws := False\<rparr>) (stopPing k s))"

definition ws_onerror :: "nat \<Rightarrow> world \<Rightarrow> world" where
  "ws_onerror k s = reject k ''WebSocket error'' (clearTimeout k s)"

text \<open>The callback of the 15 s connect timeout and that of the 45 s heartbeat interval.\<close>

definition timeout_fires :: "nat \<Rightarrow> world \<Rightarrow> world" where
  "timeout_fires k s =
     (if readyState (conns s ! k) = Some CONNECTING
      then reject k ''WebSocket connection timeout'' (ws_close k s)
      else s)"

definition ping_fires :: "nat \<Rightarrow> world \<Rightarrow> world" where
  "ping_fires k s =
     (if readyState (conns s ! k) = Some OPEN then connector_send k Ping s else s)"


section \<open>The runtime's interface (runtime.ts)\<close>

text \<open>How a call ends: it returns, or throws an \<open>Error\<close> with the given message. The state
  is returned in both cases, so that what a failed call did is visible.\<close>

datatype completion = Returns | Throws string

definition connect :: "ClawatchConfig \<Rightarrow> world \<Rightarrow> world" where
  "connect cfg s = doConnect cfg ByConnect (s\<lparr>disconnecting := False\<rparr>)"

definition disconnect :: "world \<Rightarrow> world" where
  "disconnect s =
     (let s1 = s\<lparr>disconnecting := True\<rparr>;
          s2 = (case connector s1 of None \<Rightarrow> s1 | Some k \<Rightarrow> connector_disconnect k s1)
      in s2\<lparr>connector := None, pairedWatches := [], sessionKeyToImei := Map.empty\<rparr>)"

definition isConnected :: "world \<Rightarrow> bool" where
  "isConnected s = (case connector s of None \<Rightarrow> False | Some k \<Rightarrow> connector_isConnected k s)"

definition getPairedWatches :: "world \<Rightarrow> WatchInfo list" where
  "getPairedWatches s = pairedWatches s"

definition sendReply :: "string \<Rightarrow> string \<Rightarrow> bool \<Rightarrow> world \<Rightarrow> world" where
  "sendReply m t d s =
     (case connector s of None \<Rightarrow> s | Some k \<Rightarrow> connector_send k (Reply m t d) s)"

text \<open>
  A correlation id is \<open>tag-${Date.now()}-${Math.random().toString(36).slice(2, 9)}\<close>.
  The clock reading \<open>now\<close> (milliseconds, a natural number, printed in decimal by the
  template) and the string \<open>rnd\<close> that \<open>Math.random().toString(36)\<close> returns are
  inputs of the call; \<open>slice(2, 9)\<close> keeps the (at most) seven characters after the
  first two.
\<close>

fun decimal :: "nat \<Rightarrow> string" where
  "decimal n =
     (if n < 10 then [''0123456789'' ! n]
      else decimal (n div 10) @ [''0123456789'' ! (n mod 10)])"

declare decimal.simps [simp del]

definition correlation_id :: "string \<Rightarrow> nat \<Rightarrow> string \<Rightarrow> string" where
  "correlation_id tag now rnd = tag @ ''-'' @ decimal now @ ''-'' @ take 7 (drop 2 rnd)"

text \<open>
  The \<open>params\<close> of a control command are a \<open>Record<string, unknown>\<close>: a value that
  \<open>JSON.stringify\<close> turns into JSON text, or one on which it throws a \<open>TypeError\<close>
  with the given message (a \<open>BigInt\<close>, a cyclic object). \<open>connector.send(frame)\<close>
  calls \<open>JSON.stringify(frame)\<close> only when the transport is open; a frame it cannot
  serialise is \<open>Inl\<close> the message, and then nothing is sent and the exception leaves
  \<open>send\<close>. Every other frame of the code holds strings and booleans only and is sent
  with \<open>connector_send\<close>.
\<close>

datatype js_value = JsonValue json | Unserialisable string

definition connector_send_value :: "nat \<Rightarrow> string + frame \<Rightarrow> world \<Rightarrow> completion \<times> world" where
  "connector_send_value k v s =
     (if readyState (conns s ! k) = Some OPEN
      then (case v of
              Inl err \<Rightarrow> (Throws err, s)
            | Inr f \<Rightarrow> (Returns, s\<lparr>wire := wire s @ [(k, f)]\<rparr>))
      else (Returns, s))"

text \<open>\<open>sendControl\<close> is \<open>async\<close>: \<open>Throws\<close> is the rejection of the promise it
  returns.\<close>

definition sendControl ::
  "nat \<Rightarrow> string \<Rightarrow> string \<Rightarrow> string \<Rightarrow> js_value option \<Rightarrow> world \<Rightarrow> completion \<times> world" where
  "sendControl now rnd action i params s =
     (let m = correlation_id ''ctrl'' now rnd;
          frame = (case params of
                     None \<Rightarrow> Inr (Control m action i None)
                   | Some (JsonValue p) \<Rightarrow> Inr (Control m action i (Some p))
                   | Some (Unserialisable err) \<Rightarrow> Inl err)
      in case connector s of
           None \<Rightarrow> (Returns, s)
         | Some k \<Rightarrow> connector_send_value k frame s)"

definition sendPush :: "nat \<Rightarrow> string \<Rightarrow> string \<Rightarrow> string \<Rightarrow> world \<Rightarrow> completion \<times> world" where
  "sendPush now rnd i t s =
     (case connector s of
        None \<Rightarrow> (Throws ''Clawatch not connected'', s)
      | Some k \<Rightarrow>
          if \<not> connector_isConnected k s then (Throws ''Clawatch not connected'', s)
          else if \<not> list_ex (\<lambda>w. imei w = i) (pairedWatches s)
          then (Throws (''IMEI '' @ i @ '' not paired''), s)
          else (Returns, connector_send k (Push (correlation_id ''push'' now rnd) i t) s))"

definition getImeiFromSessionKey :: "string \<Rightarrow> world \<Rightarrow> string option" where
  "getImeiFromSessionKey sessionKey s = sessionKeyToImei s sessionKey"

section \<open>Events\<close>

text \<open>
  What the environment delivers, one event at a time (the event loop is single-threaded):
  the events of the socket of connector \<open>k\<close>, the connect timeout and the heartbeat tick
  of connector \<open>k\<close>, the \<open>n\<close>-th pending \<open>setTimeout\<close> callback, and the settling of
  the \<open>n\<close>-th pending handler call. A socket opens only while connecting, delivers
  messages only while open, fires \<open>close\<close> once, and fires nothing after it; a cleared
  timer does not fire. An event that cannot occur leaves the state as it is.
\<close>

datatype event =
    WsOpen nat
  | WsMessage nat payload
  | WsClose nat
  | WsError nat
  | ConnectTimeout nat
  | PingTick nat
  | TimerFires nat
  | HandlerResolves nat string
  | HandlerRejects nat rejection

definition initial :: world where
  "initial =
     \<lparr>connector = None, pairedWatches = [], disconnecting = False, sessionKeyToImei = Map.empty,
      conns = [], wire = [], closeCalls = [], timers = [], calls = [], logged = []\<rparr>"

fun deliver :: "ClawatchConfig \<Rightarrow> event \<Rightarrow> world \<Rightarrow> world" where
  "deliver cfg (WsOpen k) s =
     (if k < length (conns s) \<and> socket (conns s ! k) = Some CONNECTING
      then ws_onopen k (upd k (\<lambda>c. c\<lparr>socket := Some OPEN\<rparr>) s) else s)"
| "deliver cfg (WsMessage k d) s =
     (if k < length (conns s) \<and> socket (conns s ! k) = Some OPEN
      then ws_onmessage cfg k d s else s)"
| "deliver cfg (WsClose k) s =
     (if k < length (conns s) \<and> socket (conns s ! k) \<noteq> None \<and> socket (conns s ! k) \<noteq> Some CLOSED
      then ws_onclose k (upd k (\<lambda>c. c\<lparr>socket := Some CLOSED\<rparr>) s) else s)"
| "deliver cfg (WsError k) s =
     (if k < length (conns s) \<and> socket (conns s ! k) \<noteq> None \<and> socket (conns s ! k) \<noteq> Some CLOSED
      then ws_onerror k s else s)"
| "deliver cfg (ConnectTimeout k) s =
     (if k < length (conns s) \<and> timeout (conns s ! k)
      then timeout_fires k (upd k (\<lambda>c. c\<lparr>timeout := False\<rparr>) s) else s)"
| "deliver cfg (PingTick k) s =
     (if k < length (conns s) \<and> pingInterval (conns s ! k) then ping_fires k s else s)"
| "deliver cfg (TimerFires n) s =
     (if n < length (timers s)
      then run_timer cfg (snd (timers s ! n))
             (s\<lparr>timers := take n (timers s) @ drop (Suc n) (timers s)\<rparr>)
      else s)"
| "deliver cfg (HandlerResolves n r) s =
     (if n < length (calls s)
      then (case calls s ! n of
              (m, i, t, key, ctx) \<Rightarrow>
                handleInboundMessage_then m i r
                  (s\<lparr>calls := take n (calls s) @ drop (Suc n) (calls s)\<rparr>))
      else s)"
| "deliver cfg (HandlerRejects n err) s =
     (if n < length (calls s)
      then (case calls s ! n of
              (m, i, t, key, ctx) \<Rightarrow>
                handleInboundMessage_catch m err
                  (s\<lparr>calls := take n (calls s) @ drop (Suc n) (calls s)\<rparr>))
      else s)"

text \<open>A run: the events of a list, delivered in order.\<close>

fun run :: "ClawatchConfig \<Rightarrow> event list \<Rightarrow> world \<Rightarrow> world" where
  "run cfg [] s = s"
| "run cfg (e # es) s = run cfg es (deliver cfg e s)"


section \<open>Vocabulary of the theorems\<close>

text \<open>A configuration as \<open>resolveConfig\<close> returns it for a signed-in user with no
  overrides, used for the concrete runs below.\<close>

definition example_config :: ClawatchConfig where
  "example_config =
     \<lparr>apiUrl = ''wss://api.sg.mempat.com/api/v1/watch/connect'', apiToken = Some ''token'',
      sessionKeyPrefix = Some DEFAULT_SESSION_PREFIX, socketThrows = None\<rparr>"

text \<open>
  The events that settle the promise of \<open>connect()\<close> of connector \<open>k\<close> once its connect
  timeout is cleared: a Registered frame, an Error frame whose code is \<open>invalid_token\<close>
  or \<open>unauthorized\<close>, and the socket's error event.
\<close>

fun settles :: "nat \<Rightarrow> event \<Rightarrow> bool" where
  "settles k (WsMessage j (JsonFrame (Registered watches))) = (j = k)"
| "settles k (WsMessage j (JsonFrame (Error code message m))) =
     (j = k \<and> (code = Some ''invalid_token'' \<or> code = Some ''unauthorized''))"
| "settles k (WsError j) = (j = k)"
| "settles k e = False"

text \<open>Connector \<open>k\<close> exists, its promise is pending and its connect timeout is not
  pending.\<close>

definition waiting :: "nat \<Rightarrow> world \<Rightarrow> bool" where
  "waiting k s =
     (k < length (conns s) \<and> promise (conns s ! k) = Pending \<and> \<not> timeout (conns s ! k))"

text \<open>
  Two properties of a state: a connector whose socket has not fired \<open>close\<close> has made
  no reconnect attempt; every pending timer set by \<open>scheduleReconnect\<close> has the base
  delay.
\<close>

definition unattempted :: "world \<Rightarrow> bool" where
  "unattempted s =
     (\<forall>k < length (conns s).
        socket (conns s ! k) \<noteq> Some CLOSED \<longrightarrow> reconnectAttempts (conns s ! k) = 0)"

definition base_delays :: "world \<Rightarrow> bool" where
  "base_delays s = (\<forall>t \<in> set (timers s). snd t = OnReconnect \<longrightarrow> fst t = baseReconnectMs)"

section \<open>Basic facts about the state\<close>

lemma upd_fields [simp]:
  "connector (upd k f s) = connector s"
  "pairedWatches (upd k f s) = pairedWatches s"
  "disconnecting (upd k f s) = disconnecting s"
  "sessionKeyToImei (upd k f s) = sessionKeyToImei s"
  "wire (upd k f s) = wire s"
  "closeCalls (upd k f s) = closeCalls s"
  "timers (upd k f s) = timers s"
  "calls (upd k f s) = calls s"
  "logged (upd k f s) = logged s"
  "length (conns (upd k f s)) = length (conns s)"
  by (simp_all add: upd_def)

lemma nth_conns_upd [simp]:
  "conns (upd k f s) ! j = (if j = k \<and> k < length (conns s) then f (conns s ! k) else conns s ! j)"
  by (cases "k < length (conns s)") (auto simp: upd_def nth_list_update list_update_beyond)

lemma logger_fields [simp]:
  "connector (logger e s) = connector s"
  "pairedWatches (logger e s) = pairedWatches s"
  "disconnecting (logger e s) = disconnecting s"
  "sessionKeyToImei (logger e s) = sessionKeyToImei s"
  "conns (logger e s) = conns s"
  "wire (logger e s) = wire s"
  "closeCalls (logger e s) = closeCalls s"
  "timers (logger e s) = timers s"
  "calls (logger e s) = calls s"
  "logged (logger e s) = logged s @ [e]"
  by (simp_all add: logger_def)

lemma setTimeout_fields [simp]:
  "connector (setTimeout cb d s) = connector s"
  "pairedWatches (setTimeout cb d s) = pairedWatches s"
  "disconnecting (setTimeout cb d s) = disconnecting s"
  "sessionKeyToImei (setTimeout cb d s) = sessionKeyToImei s"
  "conns (setTimeout cb d s) = conns s"
  "wire (setTimeout cb d s) = wire s"
  "closeCalls (setTimeout cb d s) = closeCalls s"
  "timers (setTimeout cb d s) = timers s @ [(d, cb)]"
  "calls (setTimeout cb d s) = calls s"
  "logged (setTimeout cb d s) = logged s"
  by (simp_all add: setTimeout_def)

text \<open>The connector's methods, unfolded to updates of the store.\<close>

lemmas conn_defs = clearTimeout_def stopPing_def startPing_def connector_send_def
  connector_isConnected_def connector_disconnect_def readyState_def ws_close_def resolve_def

text \<open>Every definition of the model, for evaluating a concrete run.\<close>

lemmas all_defs = upd_def logger_def setTimeout_def conn_defs reject_def doConnect_catch_def
  attemptReconnect_catch_def connector_connect_def wsUrl_def new_ClawatchConnector_def
  doConnect_def attemptReconnect_def onRegistered_def onError_def onUnbound_def
  handleInboundMessage_def handleInboundMessage_then_def handleInboundMessage_catch_def
  wrapped_onRegistered_def wrapped_onError_def ws_onopen_def ws_onmessage_def ws_onclose_def
  ws_onerror_def timeout_fires_def ping_fires_def connect_def disconnect_def isConnected_def
  getPairedWatches_def sendReply_def correlation_id_def connector_send_value_def
  sendControl_def sendPush_def
  initial_def example_config_def scheduleReconnect_def maxReconnectAttempts_def
  baseReconnectMs_def maxReconnectMs_def getSessionKey_def DEFAULT_SESSION_PREFIX_def
  PLUGIN_VERSION_def Let_def

section \<open>The roster\<close>

lemma WatchInfo_copy: "map (\<lambda>w. \<lparr>imei = imei w, label = label w\<rparr>) watches = watches"
  by (induction watches) auto

lemma pairedWatches_wrapped_onRegistered:
  "pairedWatches (wrapped_onRegistered k watches s) = watches"
  by (simp add: wrapped_onRegistered_def onRegistered_def conn_defs WatchInfo_copy)

lemma pairedWatches_onUnbound:
  "pairedWatches (onUnbound i reason s) = filter (\<lambda>w. imei w \<noteq> i) (pairedWatches s)"
  by (simp add: onUnbound_def)

text \<open>
  C6. Dispatching a Registered frame leaves the roster equal to the watches the frame
  carries, whatever it held before; dispatching an Unbound frame removes the entries
  with the given IMEI, and changes nothing when no entry has it; a Registered frame with
  the single watch \<open>860000035452456\<close> followed by an Unbound frame for it leaves the
  roster empty.
\<close>

theorem roster_registered_unbound:
  "getPairedWatches (handleFrame cfg k (Registered watches) s) = watches
   \<and> getPairedWatches (handleFrame cfg k (Unbound i reason) s)
       = filter (\<lambda>w. imei w \<noteq> i) (getPairedWatches s)
   \<and> (i \<notin> imei ` set (getPairedWatches s) \<longrightarrow>
        getPairedWatches (handleFrame cfg k (Unbound i reason) s) = getPairedWatches s)
   \<and> getPairedWatches
        (handleFrame cfg k (Unbound ''860000035452456'' reason)
          (handleFrame cfg k (Registered [\<lparr>imei = ''860000035452456'', label = None\<rparr>]) s)) = []"
  by (auto simp: getPairedWatches_def pairedWatches_wrapped_onRegistered pairedWatches_onUnbound
      filter_id_conv)

theorem roster_registered_unbound_witness:
  "''860000035452456'' \<notin> imei ` set (getPairedWatches initial)
   \<and> getPairedWatches (handleFrame example_config 0 (Unbound ''860000035452456'' None) initial)
       = getPairedWatches initial
   \<and> getPairedWatches
        (handleFrame example_config 0 (Registered [\<lparr>imei = ''860000035452456'', label = None\<rparr>]) initial)
       = [\<lparr>imei = ''860000035452456'', label = None\<rparr>]"
proof -
  have "''860000035452456'' \<notin> imei ` set (getPairedWatches initial)"
    by (simp add: getPairedWatches_def initial_def)
  with roster_registered_unbound [of example_config 0 "[\<lparr>imei = ''860000035452456'', label = None\<rparr>]"
      initial "''860000035452456''" None]
  show ?thesis by (simp add: getPairedWatches_def initial_def)
qed

section \<open>A unit that is not JSON\<close>

text \<open>
  C7. When connector \<open>k\<close> receives a unit that is not valid JSON, the handler of the
  message event completes (it is a total function of the state: nothing is thrown out of
  it) and its whole effect is: the connect timer of \<open>k\<close> is cleared and exactly one error
  event, with code \<open>invalid_frame\<close>, is logged. No \<open>close()\<close> is called, the socket and
  the handle stay as they are, no frame is sent, no timer is set, the promise of
  \<open>connect()\<close> is not settled.
\<close>

theorem invalid_json_one_error_event:
  assumes "k < length (conns s)" and "socket (conns s ! k) = Some OPEN"
  shows "deliver cfg (WsMessage k NotJson) s
           = (clearTimeout k s)
               \<lparr>logged := logged s @ [Error_event (Some ''invalid_frame'') ''Invalid JSON from server'']\<rparr>
       \<and> closeCalls (deliver cfg (WsMessage k NotJson) s) = closeCalls s
       \<and> socket (conns (deliver cfg (WsMessage k NotJson) s) ! k) = Some OPEN
       \<and> ws (conns (deliver cfg (WsMessage k NotJson) s) ! k) = ws (conns s ! k)
       \<and> promise (conns (deliver cfg (WsMessage k NotJson) s) ! k) = promise (conns s ! k)
       \<and> wire (deliver cfg (WsMessage k NotJson) s) = wire s
       \<and> timers (deliver cfg (WsMessage k NotJson) s) = timers s"
  using assms by (simp add: ws_onmessage_def wrapped_onError_def onError_def logger_def conn_defs)

theorem invalid_json_one_error_event_witness:
  "logged (deliver example_config (WsMessage 0 NotJson)
             (run example_config [WsOpen 0] (connect example_config initial)))
     = [Error_event (Some ''invalid_frame'') ''Invalid JSON from server'']
   \<and> closeCalls (deliver example_config (WsMessage 0 NotJson)
             (run example_config [WsOpen 0] (connect example_config initial))) = []
   \<and> socket (conns (deliver example_config (WsMessage 0 NotJson)
             (run example_config [WsOpen 0] (connect example_config initial))) ! 0) = Some OPEN"
proof -
  let ?s = "run example_config [WsOpen 0] (connect example_config initial)"
  have a: "0 < length (conns ?s)" and b: "socket (conns ?s ! 0) = Some OPEN"
    and c: "logged ?s = []" and d: "closeCalls ?s = []"
    by (simp_all add: all_defs)
  from invalid_json_one_error_event [OF a b, of example_config] c d show ?thesis
    by (simp add: all_defs)
qed

section \<open>Disconnecting\<close>

lemma length_conns_connector_disconnect [simp]:
  "length (conns (connector_disconnect k s)) = length (conns s)"
  by (simp add: conn_defs Let_def)

lemma length_conns_connector_disconnect_funpow:
  "length (conns ((connector_disconnect k ^^ n) s)) = length (conns s)"
  by (induction n) simp_all

lemma connector_disconnect_effect:
  assumes "k < length (conns s)"
  shows "\<not> pingInterval (conns (connector_disconnect k s) ! k)
       \<and> \<not> ws (conns (connector_disconnect k s) ! k)
       \<and> closeCalls (connector_disconnect k s) = closeCalls s @ (if ws (conns s ! k) then [k] else [])
       \<and> \<not> connector_isConnected k (connector_disconnect k s)"
  using assms by (simp add: conn_defs Let_def)

lemma isConnected_disconnect: "\<not> isConnected (disconnect s)"
  by (simp add: isConnected_def disconnect_def Let_def)

text \<open>
  C8. \<open>disconnect\<close>, of the runtime and of a connector, is a total function of the state
  (it has no failing branch: nothing is thrown), and after one or more calls in a row, from
  any state whatever (one that never connected included), \<open>isConnected\<close> is false. Each
  call of the connector's \<open>disconnect\<close> leaves the heartbeat timer stopped and the
  transport handle cleared, and calls \<open>close()\<close> on the transport exactly when the handle
  was present.
\<close>

theorem disconnect_repeated:
  assumes "0 < n"
  shows "\<not> isConnected ((disconnect ^^ n) s)
       \<and> \<not> isConnected (disconnect initial)
       \<and> (k < length (conns s) \<longrightarrow>
            \<not> connector_isConnected k ((connector_disconnect k ^^ n) s)
          \<and> \<not> pingInterval (conns (connector_disconnect k s) ! k)
          \<and> \<not> ws (conns (connector_disconnect k s) ! k)
          \<and> closeCalls (connector_disconnect k s)
              = closeCalls s @ (if ws (conns s ! k) then [k] else []))"
proof -
  from assms obtain m where n: "n = Suc m" by (cases n) auto
  have "\<not> isConnected ((disconnect ^^ n) s)"
    by (simp add: n isConnected_disconnect)
  moreover have "\<not> connector_isConnected k ((connector_disconnect k ^^ n) s)"
    if "k < length (conns s)"
  proof -
    from that have "k < length (conns ((connector_disconnect k ^^ m) s))"
      by (simp add: length_conns_connector_disconnect_funpow)
    from connector_disconnect_effect [OF this] show ?thesis by (simp add: n)
  qed
  ultimately show ?thesis
    using connector_disconnect_effect [of k s] by (simp add: isConnected_disconnect)
qed

theorem disconnect_repeated_witness:
  "\<not> isConnected ((disconnect ^^ 2) (run example_config [WsOpen 0] (connect example_config initial)))
   \<and> \<not> connector_isConnected 0
        ((connector_disconnect 0 ^^ 2) (run example_config [WsOpen 0] (connect example_config initial)))
   \<and> closeCalls (connector_disconnect 0 (run example_config [WsOpen 0] (connect example_config initial)))
        = [0]"
proof -
  let ?s = "run example_config [WsOpen 0] (connect example_config initial)"
  have a: "0 < length (conns ?s)" and b: "ws (conns ?s ! 0)" and c: "closeCalls ?s = []"
    by (simp_all add: all_defs)
  have "(0::nat) < 2" by simp
  from disconnect_repeated [OF this, of ?s 0] a b c show ?thesis
    by (simp add: all_defs)
qed

section \<open>Inbound messages\<close>

lemma wire_handleInboundMessage_then:
  "wire (handleInboundMessage_then m i r s)
     = wire s @ (case connector s of
                   None \<Rightarrow> []
                 | Some k \<Rightarrow> if connector_isConnected k s then [(k, Reply m r True)] else [])"
  by (simp add: handleInboundMessage_then_def conn_defs Let_def split: option.splits)

lemma wire_handleInboundMessage_catch:
  "wire (handleInboundMessage_catch m (ErrorObject e st) s)
     = wire s @ (case connector s of
                   None \<Rightarrow> []
                 | Some k \<Rightarrow> if connector_isConnected k s
                             then [(k, Error (Some ''agent_error'') e (Some m))] else [])"
  by (simp add: handleInboundMessage_catch_def conn_defs Let_def split: option.splits)

lemma calls_handleInboundMessage:
  "calls (handleInboundMessage cfg m i t ts cmd ctx s)
     = calls s @ [(m, i, t,
                   getSessionKey (case sessionKeyPrefix cfg of None \<Rightarrow> ''watch:'' | Some p \<Rightarrow> p) i,
                   ctx)]"
  by (simp add: handleInboundMessage_def Let_def)

text \<open>
  C1 (amended). Dispatching an inbound Message frame with id \<open>m\<close> (in any state
  \<open>s0\<close>) invokes the injected handler once, with \<open>m\<close>. When that call, pending in a
  later state \<open>s\<close>, resolves with text \<open>r\<close>: if the runtime holds
  a connector whose transport is open at that moment, exactly one frame is sent, the Reply
  \<open>{id: m, text: r, done: true}\<close>; otherwise no frame is sent. When it rejects with an
  error of message \<open>e\<close>: if the runtime holds a connector whose transport is open at that
  moment, exactly one frame is sent, the Error \<open>{id: m, code: agent_error, message: e}\<close>;
  otherwise no frame is sent. So at most one frame answers a message, never a Reply and an
  Error both, and the frame carries the id \<open>m\<close>.
\<close>

theorem inbound_reply_or_error:
  assumes "n < length (calls s)" and "calls s ! n = (m, i, t, key, ctx)"
  shows "(isConnected s \<longrightarrow>
            (\<exists>k. connector s = Some k
               \<and> wire (deliver cfg (HandlerResolves n r) s) = wire s @ [(k, Reply m r True)]
               \<and> wire (deliver cfg (HandlerRejects n (ErrorObject e st)) s)
                   = wire s @ [(k, Error (Some ''agent_error'') e (Some m))]))
       \<and> (\<not> isConnected s \<longrightarrow>
            wire (deliver cfg (HandlerResolves n r) s) = wire s
          \<and> wire (deliver cfg (HandlerRejects n (ErrorObject e st)) s) = wire s)
       \<and> calls (handleFrame cfg j (Message m i t ts cmd ctx) s0)
           = calls s0 @ [(m, i, t,
                         getSessionKey (case sessionKeyPrefix cfg of None \<Rightarrow> ''watch:'' | Some p \<Rightarrow> p) i,
                         ctx)]"
  using assms
  by (auto simp: wire_handleInboundMessage_then wire_handleInboundMessage_catch
      calls_handleInboundMessage isConnected_def connector_isConnected_def readyState_def
      split: option.splits)

theorem inbound_reply_or_error_witness:
  "wire (run example_config
          [WsOpen 0,
           WsMessage 0 (JsonFrame (Message ''m1'' ''860000035452456'' ''hello'' None None None)),
           HandlerResolves 0 ''hi there'']
          (connect example_config initial))
     = [(0, Register ''token'' ''openclaw-clawatch'' ''0.1.22''),
        (0, Reply ''m1'' ''hi there'' True)]
   \<and> wire (run example_config
          [WsOpen 0,
           WsMessage 0 (JsonFrame (Message ''m1'' ''860000035452456'' ''hello'' None None None)),
           HandlerRejects 0 (ErrorObject ''boom'' None)]
          (connect example_config initial))
     = [(0, Register ''token'' ''openclaw-clawatch'' ''0.1.22''),
        (0, Error (Some ''agent_error'') ''boom'' (Some ''m1''))]"
proof -
  let ?s = "run example_config
          [WsOpen 0,
           WsMessage 0 (JsonFrame (Message ''m1'' ''860000035452456'' ''hello'' None None None))]
          (connect example_config initial)"
  have a: "0 < length (calls ?s)"
    and b: "calls ?s ! 0 = (''m1'', ''860000035452456'', ''hello'', ''clawatch:860000035452456'', None)"
    and c: "isConnected ?s" and d: "connector ?s = Some 0"
    and e: "wire ?s = [(0, Register ''token'' ''openclaw-clawatch'' ''0.1.22'')]"
    by (simp_all add: all_defs)
  from inbound_reply_or_error [OF a b, of example_config "''hi there''" "''boom''" None 0 None None]
    c d e
  have "wire (deliver example_config (HandlerResolves 0 ''hi there'') ?s)
          = [(0, Register ''token'' ''openclaw-clawatch'' ''0.1.22''),
             (0, Reply ''m1'' ''hi there'' True)]
      \<and> wire (deliver example_config (HandlerRejects 0 (ErrorObject ''boom'' None)) ?s)
          = [(0, Register ''token'' ''openclaw-clawatch'' ''0.1.22''),
             (0, Error (Some ''agent_error'') ''boom'' (Some ''m1''))]"
    by simp
  then show ?thesis by simp
qed

text \<open>
  C1 as stated fails when the transport closes while the handler is pending: the
  handler then resolves, and no Reply frame is sent (the only frame on the wire is the
  Register frame of the handshake).
\<close>

theorem inbound_reply_counterexample:
  "calls (run example_config
          [WsOpen 0,
           WsMessage 0 (JsonFrame (Message ''m1'' ''860000035452456'' ''hello'' None None None)),
           WsClose 0]
          (connect example_config initial))
     = [(''m1'', ''860000035452456'', ''hello'', ''clawatch:860000035452456'', None)]
   \<and> wire (run example_config
          [WsOpen 0,
           WsMessage 0 (JsonFrame (Message ''m1'' ''860000035452456'' ''hello'' None None None)),
           WsClose 0,
           HandlerResolves 0 ''hi there'']
          (connect example_config initial))
     = [(0, Register ''token'' ''openclaw-clawatch'' ''0.1.22'')]"
  by (simp add: all_defs)

section \<open>After an intended disconnect\<close>

text \<open>The handlers, unfolded to the primitive updates.\<close>

lemmas handler_defs = reject_def doConnect_catch_def attemptReconnect_catch_def
  onRegistered_def onError_def onUnbound_def handleInboundMessage_def
  handleInboundMessage_then_def handleInboundMessage_catch_def wrapped_onRegistered_def
  wrapped_onError_def ws_onopen_def ws_onmessage_def ws_onclose_def ws_onerror_def
  timeout_fires_def ping_fires_def scheduleReconnect_def Let_def

lemma attemptReconnect_stopped: "disconnecting s \<Longrightarrow> attemptReconnect cfg s = s"
  by (simp add: attemptReconnect_def)

lemma run_timer_stopped: "disconnecting s \<Longrightarrow> run_timer cfg cb s = s"
  by (cases cb) (simp_all add: attemptReconnect_def split: option.splits)

lemma handleFrame_stopped:
  assumes "disconnecting s" and "connector s = None"
  shows "disconnecting (handleFrame cfg k f s) \<and> connector (handleFrame cfg k f s) = None
       \<and> length (conns (handleFrame cfg k f s)) = length (conns s)"
  using assms by (cases f) (simp_all add: handler_defs conn_defs split: caller.splits)

lemma deliver_stopped:
  assumes "disconnecting s" and "connector s = None"
  shows "disconnecting (deliver cfg e s) \<and> connector (deliver cfg e s) = None
       \<and> length (conns (deliver cfg e s)) = length (conns s)"
proof (cases e)
  case (WsMessage k d)
  then show ?thesis
    using assms handleFrame_stopped [OF assms]
    by (cases d) (simp_all add: ws_onmessage_def wrapped_onError_def onError_def reject_def
        doConnect_catch_def attemptReconnect_catch_def clearTimeout_def Let_def split: caller.splits)
next
  case (TimerFires n)
  then show ?thesis using assms by (simp add: run_timer_stopped)
qed (use assms in \<open>simp_all add: handler_defs conn_defs split: caller.splits prod.splits\<close>)

lemma run_stopped:
  assumes "disconnecting s" and "connector s = None"
  shows "disconnecting (run cfg es s) \<and> connector (run cfg es s) = None
       \<and> length (conns (run cfg es s)) = length (conns s)"
  using assms
proof (induction es arbitrary: s)
  case Nil
  then show ?case by simp
next
  case (Cons e es)
  from deliver_stopped [OF Cons.prems, of cfg e] Cons.IH [of "deliver cfg e s"]
  show ?case by simp
qed

lemma disconnect_stops:
  "disconnecting (disconnect s) \<and> connector (disconnect s) = None
   \<and> length (conns (disconnect s)) = length (conns s)"
  by (simp add: disconnect_def conn_defs Let_def split: option.splits)

text \<open>
  C9. \<open>disconnect\<close> sets the flag \<open>disconnecting\<close> and clears the connector reference.
  From then on, whatever events follow and in whatever order and number (socket events of
  the old connectors, pending timers of either reconnect path firing, handlers settling),
  the flag stays set, the reference stays null and no connector is constructed; and in
  every such state the reconnect hook \<open>attemptReconnect\<close>, and each of the three timer
  callbacks that lead to it, returns the state unchanged.
\<close>

theorem reconnect_hook_noop_after_disconnect:
  "disconnecting (run cfg es (disconnect s))
   \<and> connector (run cfg es (disconnect s)) = None
   \<and> length (conns (run cfg es (disconnect s))) = length (conns s)
   \<and> attemptReconnect cfg (run cfg es (disconnect s)) = run cfg es (disconnect s)
   \<and> run_timer cfg cb (run cfg es (disconnect s)) = run cfg es (disconnect s)
   \<and> (attemptReconnect cfg ^^ n) (disconnect s) = disconnect s"
proof -
  have d: "disconnecting (disconnect s)" and c: "connector (disconnect s) = None"
    and l: "length (conns (disconnect s)) = length (conns s)"
    using disconnect_stops [of s] by simp_all
  have "(attemptReconnect cfg ^^ n) (disconnect s) = disconnect s"
    by (induction n) (simp_all add: attemptReconnect_stopped d)
  with run_stopped [OF d c, of cfg es] l show ?thesis
    by (simp add: attemptReconnect_stopped run_timer_stopped)
qed

theorem reconnect_hook_noop_after_disconnect_witness:
  "timers (run example_config [WsClose 0] (disconnect (run example_config [WsOpen 0] (connect example_config initial))))
     = [(1000, OnReconnect)]
   \<and> connector (run example_config [WsClose 0, TimerFires 0]
        (disconnect (run example_config [WsOpen 0] (connect example_config initial)))) = None
   \<and> length (conns (run example_config [WsClose 0, TimerFires 0]
        (disconnect (run example_config [WsOpen 0] (connect example_config initial))))) = 1"
proof -
  let ?s = "run example_config [WsOpen 0] (connect example_config initial)"
  have a: "length (conns ?s) = 1"
    and b: "timers (run example_config [WsClose 0] (disconnect ?s)) = [(1000, OnReconnect)]"
    by (simp_all add: all_defs)
  from reconnect_hook_noop_after_disconnect [of example_config "[WsClose 0, TimerFires 0]" ?s OnReconnect 1]
    a b show ?thesis by simp
qed

section \<open>The promise of connect() once the timeout is cleared\<close>

lemma doConnect_keeps:
  assumes "k < length (conns s)"
  shows "k < length (conns (doConnect cfg who s)) \<and> conns (doConnect cfg who s) ! k = conns s ! k"
  using assms
  by (simp add: doConnect_def connector_connect_def handler_defs nth_append
      split: option.splits caller.splits)

lemma attemptReconnect_keeps:
  assumes "k < length (conns s)"
  shows "k < length (conns (attemptReconnect cfg s))
       \<and> conns (attemptReconnect cfg s) ! k = conns s ! k"
  using doConnect_keeps [of k "logger Info_reconnecting (s\<lparr>connector := None\<rparr>)" cfg ByReconnect] assms
  by (simp add: attemptReconnect_def)

lemma run_timer_keeps:
  assumes "k < length (conns s)"
  shows "k < length (conns (run_timer cfg cb s)) \<and> conns (run_timer cfg cb s) ! k = conns s ! k"
  using attemptReconnect_keeps [OF assms, of cfg]
    attemptReconnect_keeps [of k "logger Info_manual_reconnect s" cfg] assms
  by (cases cb) (simp_all split: option.splits)

lemma handleFrame_waiting:
  assumes "waiting k s" and "\<not> settles k (WsMessage j (JsonFrame f))"
  shows "waiting k (handleFrame cfg j f s)"
  using assms by (cases f) (auto simp: waiting_def handler_defs conn_defs split: caller.splits)

lemma ws_onmessage_waiting:
  assumes "waiting k s" and "\<not> settles k (WsMessage j d)"
  shows "waiting k (ws_onmessage cfg j d s)"
proof (cases d)
  case (JsonFrame f)
  with assms handleFrame_waiting [of k s j f cfg] show ?thesis by (simp add: ws_onmessage_def)
qed (use assms in \<open>auto simp: waiting_def ws_onmessage_def wrapped_onError_def onError_def
      clearTimeout_def\<close>)

lemma deliver_waiting:
  assumes "waiting k s" and "\<not> settles k e"
  shows "waiting k (deliver cfg e s)"
proof (cases e)
  case (WsMessage j d)
  with assms ws_onmessage_waiting [of k s j d cfg] show ?thesis by simp
next
  case (TimerFires n)
  with assms run_timer_keeps [of k "s\<lparr>timers := take n (timers s) @ drop (Suc n) (timers s)\<rparr>" cfg "snd (timers s ! n)"]
  show ?thesis by (simp add: waiting_def)
next
  case (WsError j)
  with assms show ?thesis
    by (auto simp: waiting_def handler_defs conn_defs split: caller.splits)
qed (use assms in \<open>auto simp: waiting_def handler_defs conn_defs split: caller.splits prod.splits option.splits\<close>)

lemma run_waiting:
  assumes "waiting k s" and "\<forall>e \<in> set es. \<not> settles k e"
  shows "waiting k (run cfg es s)"
  using assms
proof (induction es arbitrary: s)
  case Nil
  then show ?case by simp
next
  case (Cons e es)
  then have "waiting k (deliver cfg e s)" by (simp add: deliver_waiting)
  with Cons show ?case by simp
qed

lemma wrapped_onError_waiting:
  assumes "k < length (conns s)" and "promise (conns s ! k) = Pending"
    and "code \<noteq> Some ''invalid_token''" and "code \<noteq> Some ''unauthorized''"
  shows "waiting k (wrapped_onError k code message s)"
  using assms by (simp add: waiting_def wrapped_onError_def onError_def clearTimeout_def)

lemma ws_onerror_rejects:
  assumes "waiting k s"
  shows "promise (conns (ws_onerror k s) ! k) = Rejected ''WebSocket error''"
  using assms by (simp add: waiting_def handler_defs conn_defs split: caller.splits)


text \<open>
  C10 (amended). Let the promise of \<open>connect()\<close> of connector \<open>k\<close> be pending when the
  connector's error callback fires with a code other than \<open>invalid_token\<close> and
  \<open>unauthorized\<close> (the \<open>invalid_frame\<close> of a decode failure included). Then the connect
  timeout is cleared and the promise is still pending; and after any further events none
  of which is a Registered frame on \<open>k\<close>, an Error frame on \<open>k\<close> with one of the two
  fatal codes, or the error event of the socket of \<open>k\<close>, the timeout is still cleared and
  the promise still pending: it never rejects by timeout, and a plain close leaves it
  pending for ever. The socket's error event, the case the claim leaves out, does settle
  it: the promise is rejected with \<open>WebSocket error\<close>.
\<close>

theorem connect_promise_after_nonfatal_error:
  assumes "k < length (conns s)" and "promise (conns s ! k) = Pending"
    and "code \<noteq> Some ''invalid_token''" and "code \<noteq> Some ''unauthorized''"
    and "\<forall>e \<in> set es. \<not> settles k e"
  shows "\<not> timeout (conns (wrapped_onError k code message s) ! k)
       \<and> promise (conns (wrapped_onError k code message s) ! k) = Pending
       \<and> \<not> timeout (conns (run cfg es (wrapped_onError k code message s)) ! k)
       \<and> promise (conns (run cfg es (wrapped_onError k code message s)) ! k) = Pending
       \<and> promise (conns (ws_onerror k (run cfg es (wrapped_onError k code message s))) ! k)
           = Rejected ''WebSocket error''"
proof -
  have w: "waiting k (wrapped_onError k code message s)"
    using assms(1-4) by (rule wrapped_onError_waiting)
  then have "waiting k (run cfg es (wrapped_onError k code message s))"
    using assms(5) by (rule run_waiting)
  with w ws_onerror_rejects [of k "run cfg es (wrapped_onError k code message s)"]
  show ?thesis by (simp add: waiting_def)
qed

theorem connect_promise_after_nonfatal_error_witness:
  "promise (conns (run example_config [WsOpen 0] (connect example_config initial)) ! 0) = Pending
   \<and> \<not> timeout (conns (run example_config [ConnectTimeout 0, WsClose 0, ConnectTimeout 0]
          (wrapped_onError 0 (Some ''invalid_frame'') ''Invalid JSON from server''
            (run example_config [WsOpen 0] (connect example_config initial)))) ! 0)
   \<and> promise (conns (run example_config [ConnectTimeout 0, WsClose 0, ConnectTimeout 0]
          (wrapped_onError 0 (Some ''invalid_frame'') ''Invalid JSON from server''
            (run example_config [WsOpen 0] (connect example_config initial)))) ! 0) = Pending"
proof -
  let ?s = "run example_config [WsOpen 0] (connect example_config initial)"
  have a: "0 < length (conns ?s)" and b: "promise (conns ?s ! 0) = Pending"
    by (simp_all add: all_defs)
  have c: "Some ''invalid_frame'' \<noteq> Some ''invalid_token''"
    and d: "Some ''invalid_frame'' \<noteq> Some ''unauthorized''"
    and e: "\<forall>e \<in> set [ConnectTimeout 0, WsClose 0, ConnectTimeout 0]. \<not> settles 0 e"
    by simp_all
  from connect_promise_after_nonfatal_error [OF a b c d e, of "''Invalid JSON from server''" example_config]
    b show ?thesis by blast
qed

text \<open>
  C10 as stated fails: after the handshake opened and a unit that is not JSON raised
  \<open>invalid_frame\<close>, the promise is pending with its timeout cleared; the socket's error
  event then rejects it, though neither a Registered frame nor an Error frame arrived.
\<close>

theorem connect_promise_counterexample:
  "promise (conns (run example_config [WsOpen 0, WsMessage 0 NotJson]
      (connect example_config initial)) ! 0) = Pending
   \<and> \<not> timeout (conns (run example_config [WsOpen 0, WsMessage 0 NotJson]
      (connect example_config initial)) ! 0)
   \<and> promise (conns (run example_config [WsOpen 0, WsMessage 0 NotJson, WsError 0]
      (connect example_config initial)) ! 0) = Rejected ''WebSocket error''"
  by (simp add: all_defs)

section \<open>Reconnect delays\<close>

lemma scheduleReconnect_delay:
  assumes "k < length (conns s)"
  shows "timers (scheduleReconnect k s)
           = timers s @ [(min (1000 * 2 ^ reconnectAttempts (conns s ! k)) 300000, OnReconnect)]
       \<and> reconnectAttempts (conns (scheduleReconnect k s) ! k) = reconnectAttempts (conns s ! k) + 1
       \<and> length (conns (scheduleReconnect k s)) = length (conns s)"
  using assms
  by (simp add: scheduleReconnect_def maxReconnectAttempts_def baseReconnectMs_def
      maxReconnectMs_def Let_def)

lemma ws_onopen_resets:
  assumes "k < length (conns s)"
  shows "reconnectAttempts (conns (ws_onopen k s) ! k) = 0"
  using assms by (simp add: ws_onopen_def conn_defs Let_def)

lemma unattempted_doConnect:
  assumes "unattempted s"
  shows "unattempted (doConnect cfg who s)"
  using assms
  by (auto simp: unattempted_def doConnect_def connector_connect_def new_ClawatchConnector_def
      handler_defs nth_append less_Suc_eq split: option.splits caller.splits)

lemma unattempted_attemptReconnect:
  assumes "unattempted s"
  shows "unattempted (attemptReconnect cfg s)"
proof -
  from assms have "unattempted (logger Info_reconnecting (s\<lparr>connector := None\<rparr>))"
    by (simp add: unattempted_def)
  then show ?thesis using assms by (simp add: attemptReconnect_def unattempted_doConnect)
qed

lemma unattempted_run_timer:
  assumes "unattempted s"
  shows "unattempted (run_timer cfg cb s)"
proof -
  from assms have "unattempted (logger Info_manual_reconnect s)"
    by (simp add: unattempted_def)
  then show ?thesis using assms
    by (cases cb) (simp_all add: unattempted_attemptReconnect split: option.splits)
qed

lemma unattempted_handleFrame:
  assumes "unattempted s"
  shows "unattempted (handleFrame cfg j f s)"
  using assms by (cases f) (auto simp: unattempted_def handler_defs conn_defs split: caller.splits)

lemma unattempted_deliver:
  assumes "unattempted s"
  shows "unattempted (deliver cfg e s)"
proof (cases e)
  case (WsMessage j d)
  with assms unattempted_handleFrame [OF assms, of cfg j] show ?thesis
    by (cases d) (auto simp: ws_onmessage_def unattempted_def wrapped_onError_def onError_def
        clearTimeout_def)
next
  case (TimerFires n)
  from assms have "unattempted (s\<lparr>timers := take n (timers s) @ drop (Suc n) (timers s)\<rparr>)"
    by (simp add: unattempted_def)
  with TimerFires assms show ?thesis by (simp add: unattempted_run_timer)
qed (use assms in \<open>auto simp: unattempted_def handler_defs conn_defs
      split: caller.splits prod.splits option.splits\<close>)


lemma base_delays_doConnect:
  assumes "base_delays s"
  shows "base_delays (doConnect cfg who s)"
  using assms
  by (auto simp: base_delays_def doConnect_def connector_connect_def handler_defs
      split: option.splits caller.splits)

lemma base_delays_run_timer:
  assumes "base_delays s"
  shows "base_delays (run_timer cfg cb s)"
proof -
  have "base_delays (attemptReconnect cfg s')" if "base_delays s'" for s'
  proof -
    from that have "base_delays (logger Info_reconnecting (s'\<lparr>connector := None\<rparr>))"
      by (simp add: base_delays_def)
    then show ?thesis using that by (simp add: attemptReconnect_def base_delays_doConnect)
  qed
  moreover from assms have "base_delays (logger Info_manual_reconnect s)"
    by (simp add: base_delays_def)
  ultimately show ?thesis using assms by (cases cb) (simp_all split: option.splits)
qed

lemma base_delays_handleFrame:
  assumes "base_delays s"
  shows "base_delays (handleFrame cfg j f s)"
  using assms by (cases f) (auto simp: base_delays_def handler_defs conn_defs split: caller.splits)

lemma base_delays_deliver:
  assumes "base_delays s" and "unattempted s"
  shows "base_delays (deliver cfg e s)"
proof (cases e)
  case (WsMessage j d)
  with assms base_delays_handleFrame [OF assms(1), of cfg j] show ?thesis
    by (cases d) (auto simp: ws_onmessage_def base_delays_def wrapped_onError_def onError_def
        clearTimeout_def)
next
  case (TimerFires n)
  have "set (take n (timers s) @ drop (Suc n) (timers s)) \<subseteq> set (timers s)"
    using set_take_subset [of n "timers s"] set_drop_subset [of "Suc n" "timers s"] by auto
  with assms(1) have "base_delays (s\<lparr>timers := take n (timers s) @ drop (Suc n) (timers s)\<rparr>)"
    unfolding base_delays_def by fastforce
  with TimerFires assms(1) show ?thesis by (simp add: base_delays_run_timer)
next
  case (WsClose j)
  with assms show ?thesis
    by (auto simp: base_delays_def unattempted_def handler_defs conn_defs baseReconnectMs_def
        maxReconnectMs_def maxReconnectAttempts_def)
qed (use assms in \<open>auto simp: base_delays_def handler_defs conn_defs
      split: caller.splits prod.splits option.splits\<close>)

lemma invariant_initial: "unattempted initial \<and> base_delays initial"
  by (simp add: unattempted_def base_delays_def initial_def)

lemma invariant_connect:
  assumes "unattempted s" and "base_delays s"
  shows "unattempted (connect cfg s) \<and> base_delays (connect cfg s)"
proof -
  from assms have "unattempted (s\<lparr>disconnecting := False\<rparr>)" and "base_delays (s\<lparr>disconnecting := False\<rparr>)"
    by (simp_all add: unattempted_def base_delays_def)
  then show ?thesis by (simp add: connect_def unattempted_doConnect base_delays_doConnect)
qed

lemma invariant_disconnect:
  assumes "unattempted s" and "base_delays s"
  shows "unattempted (disconnect s) \<and> base_delays (disconnect s)"
  using assms
  by (auto simp: unattempted_def base_delays_def disconnect_def conn_defs Let_def
      split: option.splits)

lemma invariant_run:
  assumes "unattempted s" and "base_delays s"
  shows "unattempted (run cfg es s) \<and> base_delays (run cfg es s)"
  using assms
proof (induction es arbitrary: s)
  case Nil
  then show ?case by simp
next
  case (Cons e es)
  then show ?case by (simp add: unattempted_deliver base_delays_deliver)
qed


text \<open>
  The connector alone. On one connector, \<open>n\<close> calls of \<open>scheduleReconnect\<close> in a row,
  starting with the attempt counter at \<open>a\<close>, set the delays
  \<open>min (1000 * 2 ^ (a + j)) 300000\<close> for \<open>j = 0, ..., n - 1\<close> and leave the counter at
  \<open>a + n\<close>; each delay is at most the next and at most the cap; the handler of the
  socket's open event sets the counter to zero.
\<close>

theorem scheduleReconnect_backoff:
  assumes "k < length (conns s)"
  shows "timers ((scheduleReconnect k ^^ n) s)
           = timers s @ map (\<lambda>j. (min (1000 * 2 ^ (reconnectAttempts (conns s ! k) + j)) 300000,
                                  OnReconnect)) [0..<n]
       \<and> reconnectAttempts (conns ((scheduleReconnect k ^^ n) s) ! k)
           = reconnectAttempts (conns s ! k) + n
       \<and> min (1000 * 2 ^ j) 300000 \<le> min (1000 * 2 ^ Suc j) (300000::nat)
       \<and> min (1000 * 2 ^ j) 300000 \<le> (300000::nat)
       \<and> reconnectAttempts (conns (ws_onopen k s) ! k) = 0"
proof -
  have "timers ((scheduleReconnect k ^^ n) s)
           = timers s @ map (\<lambda>j. (min (1000 * 2 ^ (reconnectAttempts (conns s ! k) + j)) 300000,
                                  OnReconnect)) [0..<n]
       \<and> reconnectAttempts (conns ((scheduleReconnect k ^^ n) s) ! k)
           = reconnectAttempts (conns s ! k) + n
       \<and> length (conns ((scheduleReconnect k ^^ n) s)) = length (conns s)"
  proof (induction n)
    case 0
    show ?case by simp
  next
    case (Suc n)
    then have "k < length (conns ((scheduleReconnect k ^^ n) s))" using assms by simp
    from scheduleReconnect_delay [OF this] Suc show ?case by simp
  qed
  then show ?thesis using ws_onopen_resets [OF assms] by simp
qed

theorem scheduleReconnect_backoff_witness:
  "map fst (timers ((scheduleReconnect 0 ^^ 10) (connect example_config initial)))
     = [1000, 2000, 4000, 8000, 16000, 32000, 64000, 128000, 256000, 300000]"
proof -
  let ?s = "connect example_config initial"
  have a: "0 < length (conns ?s)" and b: "timers ?s = []"
    and c: "reconnectAttempts (conns ?s ! 0) = 0"
    by (simp_all add: all_defs)
  have d: "[0..<10] = [0, 1, 2, 3, 4, 5, 6, 7, 8, 9::nat]"
    by (simp add: upt_rec)
  from scheduleReconnect_backoff [OF a, of 10 0] b c show ?thesis
    by (simp add: d)
qed

text \<open>
  The runtime and the connector together. In every run that starts with the runtime's
  \<open>connect()\<close>, whatever events follow, every connector whose socket has not closed has
  its attempt counter at zero, since each reconnect constructs a new connector; so the
  close event of a socket, whenever it occurs, schedules the reconnect after exactly
  1000 ms.
\<close>

theorem reconnect_delay_always_base:
  assumes "k < length (conns (run cfg es (connect cfg initial)))"
    and "socket (conns (run cfg es (connect cfg initial)) ! k) \<noteq> None"
    and "socket (conns (run cfg es (connect cfg initial)) ! k) \<noteq> Some CLOSED"
  shows "timers (deliver cfg (WsClose k) (run cfg es (connect cfg initial)))
           = timers (run cfg es (connect cfg initial)) @ [(1000, OnReconnect)]"
proof -
  let ?s = "run cfg es (connect cfg initial)"
  have "unattempted ?s"
    using invariant_initial invariant_connect [of initial cfg] invariant_run [of "connect cfg initial" cfg es]
    by simp
  with assms have "reconnectAttempts (conns ?s ! k) = 0"
    by (simp add: unattempted_def)
  with assms show ?thesis
    by (simp add: ws_onclose_def scheduleReconnect_def conn_defs maxReconnectAttempts_def
        baseReconnectMs_def maxReconnectMs_def Let_def)
qed

theorem reconnect_delay_always_base_witness:
  "timers (run example_config [WsClose 0, TimerFires 0, WsClose 1, TimerFires 0, WsClose 2]
       (connect example_config initial))
     = [(1000, OnReconnect)]"
proof -
  let ?s = "run example_config [WsClose 0, TimerFires 0, WsClose 1, TimerFires 0]
       (connect example_config initial)"
  have a: "2 < length (conns ?s)" and b: "socket (conns ?s ! 2) \<noteq> None"
    and c: "socket (conns ?s ! 2) \<noteq> Some CLOSED" and d: "timers ?s = []"
    by (simp_all add: all_defs)
  have e: "run example_config [WsClose 0, TimerFires 0, WsClose 1, TimerFires 0, WsClose 2]
       (connect example_config initial) = deliver example_config (WsClose 2) ?s"
    by simp
  from reconnect_delay_always_base [OF a b c] d show ?thesis
    unfolding e by simp
qed

text \<open>
  C3 at a concrete run: the server is unreachable, the first transport closes, the
  reconnect timer fires, and the transport of the new connector closes too. The delay
  scheduled after the second consecutive close is 1000 ms again, where the claim's formula
  gives \<open>min (1000 * 2 ^ 1) 300000 = 2000\<close>: the attempt counter that the formula reads
  belongs to the connector, and the reconnect hook constructs a new connector each time.
\<close>

theorem reconnect_delay_second_close:
  "timers (run example_config [WsClose 0] (connect example_config initial))
     = [(1000, OnReconnect)]
   \<and> timers (run example_config [WsClose 0, TimerFires 0, WsClose 1] (connect example_config initial))
     = [(1000, OnReconnect)]
   \<and> map reconnectAttempts
        (conns (run example_config [WsClose 0, TimerFires 0, WsClose 1] (connect example_config initial)))
     = [1, 1]
   \<and> min (baseReconnectMs * 2 ^ 1) maxReconnectMs = 2000"
  by (simp add: all_defs)

section \<open>Session keys\<close>

lemma match_clawatch_SomeD:
  assumes "match_clawatch r = Some d"
  shows "r = ''clawatch:'' @ d \<and> length d = 15"
proof -
  from assms have "take 9 r = ''clawatch:''" and "drop 9 r = d" and "length d = 15"
    by (auto simp: match_clawatch_def split: if_splits)
  moreover have "r = take 9 r @ drop 9 r" by simp
  ultimately show ?thesis by simp
qed

lemma parseImeiFromSessionKey_SomeD:
  assumes "parseImeiFromSessionKey k = Some d"
  shows "(k = ''clawatch:'' @ d \<or> k = ''session:clawatch:'' @ d) \<and> length d = 15"
proof (cases "take 8 k = ''session:'' \<and> match_clawatch (drop 8 k) \<noteq> None")
  case True
  with assms have "match_clawatch (drop 8 k) = Some d"
    by (auto simp: parseImeiFromSessionKey_def split: if_splits option.splits)
  then have "drop 8 k = ''clawatch:'' @ d" and l: "length d = 15"
    using match_clawatch_SomeD by blast+
  moreover have "k = take 8 k @ drop 8 k" by simp
  ultimately have "k = ''session:'' @ ''clawatch:'' @ d" using True by metis
  with l show ?thesis by simp
next
  case False
  with assms have "match_clawatch k = Some d"
    by (auto simp: parseImeiFromSessionKey_def split: if_splits option.splits)
  then have "k = ''clawatch:'' @ d" and "length d = 15"
    using match_clawatch_SomeD by blast+
  then show ?thesis by simp
qed

lemma parse_bare:
  assumes "valid_imei i"
  shows "parseImeiFromSessionKey (getSessionKey p i)
           = (if p = ''clawatch:'' \<or> p = ''session:clawatch:'' then Some i else None)"
proof (cases "p = ''clawatch:'' \<or> p = ''session:clawatch:''")
  case True
  with assms show ?thesis
    by (auto simp: parseImeiFromSessionKey_def getSessionKey_def match_clawatch_def valid_imei_def)
next
  case False
  have "parseImeiFromSessionKey (getSessionKey p i) \<noteq> Some d" for d
  proof
    assume "parseImeiFromSessionKey (getSessionKey p i) = Some d"
    from parseImeiFromSessionKey_SomeD [OF this]
    have e: "p @ i = ''clawatch:'' @ d \<or> p @ i = ''session:clawatch:'' @ d" and "length d = 15"
      by (simp_all add: getSessionKey_def)
    with assms have "length i = length d" by (simp add: valid_imei_def)
    with e have "p = ''clawatch:'' \<or> p = ''session:clawatch:''"
      using append_eq_append_conv by blast
    with False show False by simp
  qed
  with False show ?thesis by (cases "parseImeiFromSessionKey (getSessionKey p i)") auto
qed

lemma parse_alias:
  assumes "valid_imei i"
  shows "parseImeiFromSessionKey (''session:'' @ getSessionKey p i)
           = (if p = ''clawatch:'' then Some i else None)"
proof (cases "p = ''clawatch:''")
  case True
  with assms show ?thesis
    by (simp add: parseImeiFromSessionKey_def getSessionKey_def match_clawatch_def valid_imei_def)
next
  case False
  have "parseImeiFromSessionKey (''session:'' @ getSessionKey p i) \<noteq> Some d" for d
  proof
    assume "parseImeiFromSessionKey (''session:'' @ getSessionKey p i) = Some d"
    from parseImeiFromSessionKey_SomeD [OF this]
    have "''session:'' @ p @ i = ''clawatch:'' @ d \<or> ''session:'' @ p @ i = ''session:clawatch:'' @ d"
      and l: "length d = 15"
      by (simp_all add: getSessionKey_def)
    then have e: "p @ i = ''clawatch:'' @ d" by simp
    from l assms have "length i = length d" by (simp add: valid_imei_def)
    with e have "p = ''clawatch:''" using append_eq_append_conv by blast
    with False show False by simp
  qed
  with False show ?thesis
    by (cases "parseImeiFromSessionKey (''session:'' @ getSessionKey p i)") auto
qed

text \<open>
  C2 (amended). For every string \<open>i\<close> of exactly 15 ASCII digits and every prefix \<open>p\<close>:
  the derived key \<open>getSessionKey p i\<close> parses back to \<open>i\<close> when \<open>p\<close> is \<open>clawatch:\<close>
  or \<open>session:clawatch:\<close>, and to null for every other \<open>p\<close>; its \<open>session:\<close>-prefixed
  alias parses back to \<open>i\<close> when \<open>p\<close> is \<open>clawatch:\<close>, and to null for every other
  \<open>p\<close>. So the derivation round-trips both ways exactly when \<open>p\<close> is the default prefix,
  which the parser's pattern hard-codes; the parser does not read the configured prefix.
\<close>

theorem session_key_round_trip:
  assumes "valid_imei i"
  shows "parseImeiFromSessionKey (getSessionKey p i)
           = (if p = ''clawatch:'' \<or> p = ''session:clawatch:'' then Some i else None)
       \<and> parseImeiFromSessionKey (''session:'' @ getSessionKey p i)
           = (if p = ''clawatch:'' then Some i else None)
       \<and> ((parseImeiFromSessionKey (getSessionKey p i) = Some i \<and>
            parseImeiFromSessionKey (''session:'' @ getSessionKey p i) = Some i)
           = (p = DEFAULT_SESSION_PREFIX))"
  using parse_bare [OF assms, of p] parse_alias [OF assms, of p]
  by (simp add: DEFAULT_SESSION_PREFIX_def)

theorem session_key_round_trip_witness:
  "parseImeiFromSessionKey (getSessionKey DEFAULT_SESSION_PREFIX ''860000035452456'')
     = Some ''860000035452456'' \<and>
   parseImeiFromSessionKey (''session:'' @ getSessionKey DEFAULT_SESSION_PREFIX ''860000035452456'')
     = Some ''860000035452456'' \<and>
   parseImeiFromSessionKey (getSessionKey ''session:clawatch:'' ''860000035452456'')
     = Some ''860000035452456'' \<and>
   parseImeiFromSessionKey (''session:'' @ getSessionKey ''session:clawatch:'' ''860000035452456'')
     = None"
proof -
  have v: "valid_imei ''860000035452456''" by (simp add: valid_imei_def is_digit_def)
  from session_key_round_trip [OF v, of DEFAULT_SESSION_PREFIX]
    session_key_round_trip [OF v, of "''session:clawatch:''"]
  show ?thesis by (simp add: DEFAULT_SESSION_PREFIX_def)
qed

text \<open>
  C2 as stated fails for a configured prefix other than the default: with the prefix
  \<open>watch:\<close> (the runtime's own fallback) the derived key of a valid IMEI does not parse.
\<close>

theorem session_key_round_trip_counterexample:
  "valid_imei ''860000035452456'' \<and>
   parseImeiFromSessionKey (getSessionKey ''watch:'' ''860000035452456'') \<noteq> Some ''860000035452456''"
  by (simp add: valid_imei_def is_digit_def parseImeiFromSessionKey_def getSessionKey_def
      match_clawatch_def)

section \<open>Correlation ids\<close>

lemma digit_nth_inj:
  assumes "a < 10" and "b < 10" and "''0123456789'' ! a = ''0123456789'' ! b"
  shows "a = b"
proof -
  have "distinct ''0123456789''" by simp
  moreover have "a < length ''0123456789''" and "b < length ''0123456789''"
    using assms by simp_all
  ultimately show ?thesis using assms(3) nth_eq_iff_index_eq by blast
qed

lemma digit_nth_no_dash:
  assumes "a < 10"
  shows "''0123456789'' ! a \<noteq> CHR ''-''"
proof -
  have "''0123456789'' ! a \<in> set ''0123456789''"
    using assms by (intro nth_mem) simp
  then show ?thesis by auto
qed

lemma decimal_no_dash: "CHR ''-'' \<notin> set (decimal n)"
proof (induction n rule: decimal.induct)
  case (1 n)
  show ?case
  proof (cases "n < 10")
    case True
    then show ?thesis using digit_nth_no_dash [of n] by (subst decimal.simps) auto
  next
    case False
    then show ?thesis
      using 1 digit_nth_no_dash [of "n mod 10"] by (subst decimal.simps) auto
  qed
qed

lemma decimal_length: "length (decimal n) = (if n < 10 then 1 else Suc (length (decimal (n div 10))))"
  by (subst decimal.simps) simp

lemma decimal_nonempty: "decimal n \<noteq> []"
  by (subst decimal.simps) simp

lemma decimal_inj:
  assumes "decimal m = decimal n"
  shows "m = n"
  using assms
proof (induction m arbitrary: n rule: decimal.induct)
  case (1 m)
  show ?case
  proof (cases "m < 10")
    case m: True
    show ?thesis
    proof (cases "n < 10")
      case True
      with m 1(2) show ?thesis
        using digit_nth_inj [of m n] by (simp add: decimal.simps [of m] decimal.simps [of n])
    next
      case False
      have "length (decimal m) = 1" using m by (simp add: decimal_length)
      moreover have "length (decimal n) \<ge> 2"
        using False decimal_nonempty [of "n div 10"]
        by (simp add: decimal_length [of n] Suc_le_eq)
      ultimately show ?thesis using 1(2) by simp
    qed
  next
    case m: False
    show ?thesis
    proof (cases "n < 10")
      case True
      have "length (decimal n) = 1" using True by (simp add: decimal_length)
      moreover have "length (decimal m) \<ge> 2"
        using m decimal_nonempty [of "m div 10"]
        by (simp add: decimal_length [of m] Suc_le_eq)
      ultimately show ?thesis using 1(2) by simp
    next
      case False
      with m 1(2) have "decimal (m div 10) = decimal (n div 10)"
        and "''0123456789'' ! (m mod 10) = ''0123456789'' ! (n mod 10)"
        by (simp_all add: decimal.simps [of m] decimal.simps [of n])
      then have "m div 10 = n div 10" and "m mod 10 = n mod 10"
        using 1(1) [OF m] digit_nth_inj [of "m mod 10" "n mod 10"] by simp_all
      then show ?thesis by (metis div_mult_mod_eq)
    qed
  qed
qed

lemma split_at_dash:
  assumes "CHR ''-'' \<notin> set a" and "CHR ''-'' \<notin> set b"
    and "a @ CHR ''-'' # x = b @ CHR ''-'' # y"
  shows "a = b \<and> x = y"
  using assms
proof (induction a arbitrary: b)
  case Nil
  then show ?case by (cases b) auto
next
  case (Cons c a)
  then show ?case by (cases b) auto
qed

lemma correlation_id_eq_iff:
  "(correlation_id tag now rnd = correlation_id tag now' rnd')
     = (now = now' \<and> take 7 (drop 2 rnd) = take 7 (drop 2 rnd'))"
proof
  assume "correlation_id tag now rnd = correlation_id tag now' rnd'"
  then have "decimal now @ CHR ''-'' # take 7 (drop 2 rnd)
               = decimal now' @ CHR ''-'' # take 7 (drop 2 rnd')"
    by (simp add: correlation_id_def)
  from split_at_dash [OF decimal_no_dash decimal_no_dash this]
  show "now = now' \<and> take 7 (drop 2 rnd) = take 7 (drop 2 rnd')"
    using decimal_inj by blast
next
  assume "now = now' \<and> take 7 (drop 2 rnd) = take 7 (drop 2 rnd')"
  then show "correlation_id tag now rnd = correlation_id tag now' rnd'"
    by (simp add: correlation_id_def)
qed

lemma push_id_not_ctrl_id:
  "correlation_id ''push'' now rnd \<noteq> correlation_id ''ctrl'' now' rnd'"
  by (simp add: correlation_id_def)


section \<open>Push and control\<close>

lemma isConnected_wrapped_onRegistered:
  "isConnected (wrapped_onRegistered k watches s) = isConnected s"
  by (simp add: isConnected_def wrapped_onRegistered_def onRegistered_def conn_defs Let_def
      split: option.splits)

lemma connector_wrapped_onRegistered:
  "connector (wrapped_onRegistered k watches s) = connector s"
  by (simp add: wrapped_onRegistered_def onRegistered_def conn_defs Let_def)

lemma sendPush_throws:
  assumes "\<not> isConnected s \<or> i \<notin> imei ` set (pairedWatches s)"
  shows "\<exists>e. sendPush now rnd i t s = (Throws e, s)"
  using assms by (auto simp: sendPush_def isConnected_def list_ex_iff split: option.splits)

lemma sendPush_returns:
  assumes "isConnected s" and "i \<in> imei ` set (pairedWatches s)"
  shows "\<exists>k. connector s = Some k \<and>
           sendPush now rnd i t s
             = (Returns, s\<lparr>wire := wire s @ [(k, Push (correlation_id ''push'' now rnd) i t)]\<rparr>)"
  using assms
  by (auto simp: sendPush_def isConnected_def list_ex_iff conn_defs split: option.splits if_splits)

lemma sendPush_twice:
  assumes "isConnected s" and "i \<in> imei ` set (pairedWatches s)"
  shows "\<exists>k. wire (snd (sendPush now' rnd' i t' (snd (sendPush now rnd i t s))))
           = wire s @ [(k, Push (correlation_id ''push'' now rnd) i t),
                       (k, Push (correlation_id ''push'' now' rnd') i t')]"
proof -
  from sendPush_returns [OF assms, of now rnd t] obtain k where k: "connector s = Some k"
    and 1: "sendPush now rnd i t s
             = (Returns, s\<lparr>wire := wire s @ [(k, Push (correlation_id ''push'' now rnd) i t)]\<rparr>)"
    by blast
  let ?s1 = "s\<lparr>wire := wire s @ [(k, Push (correlation_id ''push'' now rnd) i t)]\<rparr>"
  have "isConnected ?s1 = isConnected s"
    by (cases "connector s") (simp_all add: isConnected_def connector_isConnected_def)
  with assms have "isConnected ?s1" and "i \<in> imei ` set (pairedWatches ?s1)"
    by simp_all
  from sendPush_returns [OF this, of now' rnd' t'] k 1 show ?thesis by auto
qed

text \<open>
  C4. \<open>sendPush\<close> throws, with the state (the wire included) as it was, when the
  session is not connected or the IMEI is not in the roster. When the session is
  connected and the IMEI is in the roster, it returns, and its whole effect is one Push
  frame on the wire of the current connector, with that IMEI, the text, and a correlation
  id generated in this call: \<open>push-\<close>, the clock reading in decimal, \<open>-\<close>, and seven
  characters of the random string. In particular it returns once a Registered frame
  carrying the IMEI has been dispatched on a connected session. The id is fresh in that
  two calls get the same id only if they read the same millisecond and draw the same
  random characters, so that two pushes in a row put two frames with different ids on
  the wire whenever the clock or the random characters differ; and no push id is the id
  of a control command.
\<close>

theorem sendPush_precondition:
  "(\<not> isConnected s \<or> i \<notin> imei ` set (getPairedWatches s) \<longrightarrow>
      (\<exists>e. sendPush now rnd i t s = (Throws e, s)))
   \<and> (isConnected s \<and> i \<in> imei ` set (getPairedWatches s) \<longrightarrow>
      (\<exists>k. connector s = Some k \<and>
           sendPush now rnd i t s
             = (Returns, s\<lparr>wire := wire s @ [(k, Push (correlation_id ''push'' now rnd) i t)]\<rparr>)))
   \<and> (isConnected s \<and> i \<in> imei ` set watches \<longrightarrow>
      (\<exists>k. connector s = Some k \<and>
           sendPush now rnd i t (handleFrame cfg j (Registered watches) s)
             = (Returns, (handleFrame cfg j (Registered watches) s)
                  \<lparr>wire := wire (handleFrame cfg j (Registered watches) s)
                             @ [(k, Push (correlation_id ''push'' now rnd) i t)]\<rparr>)))
   \<and> correlation_id ''push'' now rnd = ''push-'' @ decimal now @ ''-'' @ take 7 (drop 2 rnd)
   \<and> (correlation_id ''push'' now rnd = correlation_id ''push'' now' rnd')
       = (now = now' \<and> take 7 (drop 2 rnd) = take 7 (drop 2 rnd'))
   \<and> correlation_id ''push'' now rnd \<noteq> correlation_id ''ctrl'' now' rnd'
   \<and> (isConnected s \<and> i \<in> imei ` set (getPairedWatches s)
        \<and> (now \<noteq> now' \<or> take 7 (drop 2 rnd) \<noteq> take 7 (drop 2 rnd')) \<longrightarrow>
      (\<exists>k m m'. wire (snd (sendPush now' rnd' i t' (snd (sendPush now rnd i t s))))
                   = wire s @ [(k, Push m i t), (k, Push m' i t')] \<and> m \<noteq> m'))"
proof -
  have "\<exists>k. connector s = Some k \<and>
           sendPush now rnd i t (handleFrame cfg j (Registered watches) s)
             = (Returns, (handleFrame cfg j (Registered watches) s)
                  \<lparr>wire := wire (handleFrame cfg j (Registered watches) s)
                             @ [(k, Push (correlation_id ''push'' now rnd) i t)]\<rparr>)"
    if "isConnected s" and "i \<in> imei ` set watches"
    using that sendPush_returns [of "wrapped_onRegistered j watches s" i now rnd t]
    by (simp add: isConnected_wrapped_onRegistered pairedWatches_wrapped_onRegistered
        connector_wrapped_onRegistered)
  moreover have "\<exists>k m m'. wire (snd (sendPush now' rnd' i t' (snd (sendPush now rnd i t s))))
                   = wire s @ [(k, Push m i t), (k, Push m' i t')] \<and> m \<noteq> m'"
    if "isConnected s" and "i \<in> imei ` set (pairedWatches s)"
      and "now \<noteq> now' \<or> take 7 (drop 2 rnd) \<noteq> take 7 (drop 2 rnd')"
  proof -
    from that(3) have "correlation_id ''push'' now rnd \<noteq> correlation_id ''push'' now' rnd'"
      by (simp add: correlation_id_eq_iff)
    with sendPush_twice [OF that(1,2), of now' rnd' t' now rnd t] show ?thesis by blast
  qed
  moreover have "correlation_id ''push'' now rnd = ''push-'' @ decimal now @ ''-'' @ take 7 (drop 2 rnd)"
    by (simp add: correlation_id_def)
  ultimately show ?thesis
    using sendPush_throws [of s i now rnd t] sendPush_returns [of s i now rnd t]
      correlation_id_eq_iff [of "''push''" now rnd now' rnd'] push_id_not_ctrl_id [of now rnd now' rnd']
    by (simp add: getPairedWatches_def)
qed


theorem sendPush_precondition_witness:
  "\<not> isConnected initial
   \<and> sendPush 1700000000000 ''0.k3j9x2a8f'' ''860000035452456'' ''hi'' initial
       = (Throws ''Clawatch not connected'', initial)
   \<and> isConnected (run example_config [WsOpen 0] (connect example_config initial))
   \<and> ''860000035452456'' \<in> imei ` set [\<lparr>imei = ''860000035452456'', label = None\<rparr>]
   \<and> fst (sendPush 1700000000000 ''0.k3j9x2a8f'' ''860000035452456'' ''hi''
        (handleFrame example_config 0 (Registered [\<lparr>imei = ''860000035452456'', label = None\<rparr>])
          (run example_config [WsOpen 0] (connect example_config initial)))) = Returns
   \<and> wire (snd (sendPush 1700000000000 ''0.k3j9x2a8f'' ''860000035452456'' ''hi''
        (handleFrame example_config 0 (Registered [\<lparr>imei = ''860000035452456'', label = None\<rparr>])
          (run example_config [WsOpen 0] (connect example_config initial)))))
       = [(0, Register ''token'' ''openclaw-clawatch'' ''0.1.22''),
          (0, Push ''push-1700000000000-k3j9x2a'' ''860000035452456'' ''hi'')]
   \<and> correlation_id ''push'' 1700000000000 ''0.k3j9x2a8f''
       \<noteq> correlation_id ''push'' 1700000000001 ''0.k3j9x2a8f''"
proof -
  let ?s = "run example_config [WsOpen 0] (connect example_config initial)"
  let ?w = "[\<lparr>imei = ''860000035452456'', label = None\<rparr>]"
  have a: "\<not> isConnected initial" and b: "isConnected ?s"
    and c: "''860000035452456'' \<in> imei ` set ?w" and d: "connector ?s = Some 0"
    and e: "wire (handleFrame example_config 0 (Registered ?w) ?s)
              = [(0, Register ''token'' ''openclaw-clawatch'' ''0.1.22'')]"
    by (simp_all add: all_defs)
  have f: "decimal 1700000000000 = ''1700000000000''"
    by (simp add: decimal.simps)
  have 1: "sendPush 1700000000000 ''0.k3j9x2a8f'' ''860000035452456'' ''hi'' initial
       = (Throws ''Clawatch not connected'', initial)"
    by (simp add: sendPush_def initial_def)
  from sendPush_precondition [of initial "''860000035452456''" 1700000000000 "''0.k3j9x2a8f''"
      "''hi''" ?w example_config 0 1700000000001 "''0.k3j9x2a8f''" "''hi''"]
  have "(correlation_id ''push'' 1700000000000 ''0.k3j9x2a8f''
          = correlation_id ''push'' 1700000000001 ''0.k3j9x2a8f'')
        = ((1700000000000::nat) = 1700000000001
           \<and> take 7 (drop 2 ''0.k3j9x2a8f'') = take 7 (drop 2 ''0.k3j9x2a8f''))"
    by blast
  then have 3: "correlation_id ''push'' 1700000000000 ''0.k3j9x2a8f''
       \<noteq> correlation_id ''push'' 1700000000001 ''0.k3j9x2a8f''"
    by simp
  from sendPush_precondition [of ?s "''860000035452456''" 1700000000000 "''0.k3j9x2a8f''"
      "''hi''" ?w example_config 0 1700000000001 "''0.k3j9x2a8f''" "''hi''"] b c d e f
  have 2: "fst (sendPush 1700000000000 ''0.k3j9x2a8f'' ''860000035452456'' ''hi''
        (handleFrame example_config 0 (Registered ?w) ?s)) = Returns
     \<and> wire (snd (sendPush 1700000000000 ''0.k3j9x2a8f'' ''860000035452456'' ''hi''
        (handleFrame example_config 0 (Registered ?w) ?s)))
       = [(0, Register ''token'' ''openclaw-clawatch'' ''0.1.22''),
          (0, Push ''push-1700000000000-k3j9x2a'' ''860000035452456'' ''hi'')]"
    by simp
  from a b c 1 2 3 show ?thesis by blast
qed

lemma connector_send_value_effect:
  "(\<not> connector_isConnected k s \<longrightarrow> connector_send_value k v s = (Returns, s))
   \<and> (connector_isConnected k s \<longrightarrow>
        connector_send_value k (Inl err) s = (Throws err, s)
      \<and> connector_send_value k (Inr f) s = (Returns, s\<lparr>wire := wire s @ [(k, f)]\<rparr>))"
  by (auto simp: connector_send_value_def connector_isConnected_def split: option.splits)

lemma sendControl_disconnected:
  assumes "\<not> isConnected s"
  shows "sendControl now rnd a i ps s = (Returns, s)"
  using assms connector_send_value_effect
  by (auto simp: sendControl_def isConnected_def Let_def split: option.splits)

lemma sendControl_connected:
  assumes "isConnected s"
  shows "\<exists>k. connector s = Some k
       \<and> sendControl now rnd a i None s
           = (Returns, s\<lparr>wire := wire s @ [(k, Control (correlation_id ''ctrl'' now rnd) a i None)]\<rparr>)
       \<and> sendControl now rnd a i (Some (JsonValue p)) s
           = (Returns, s\<lparr>wire := wire s @ [(k, Control (correlation_id ''ctrl'' now rnd) a i (Some p))]\<rparr>)
       \<and> sendControl now rnd a i (Some (Unserialisable err)) s = (Throws err, s)"
  using assms connector_send_value_effect
  by (auto simp: sendControl_def isConnected_def Let_def split: option.splits)

lemma sendControl_throws_unchanged:
  assumes "sendControl now rnd a i ps s = (Throws err, s')"
  shows "s' = s"
  using assms
  by (auto simp: sendControl_def connector_send_value_def Let_def
      split: option.splits js_value.splits if_splits)

text \<open>
  C5 (amended). A call of \<open>sendControl\<close> while the session is disconnected does not
  reject: it returns, and no frame is sent (the state is as it was). On a connected
  session, a call with an IMEI of exactly 15 digits and parameters that serialise sends
  exactly one Control frame and returns; \<open>sendControl\<close> rejects only when the parameters
  do not serialise, and whenever it rejects no frame has been sent. \<open>sendPush\<close> rejects,
  before any frame is sent, when the session is not connected or the IMEI is not in the
  roster: hence every IMEI that is not a string of exactly 15 digits, as long as the
  roster holds only such strings.
\<close>

theorem sendControl_disconnected_returns:
  "(\<not> isConnected s \<longrightarrow> sendControl now rnd a i ps s = (Returns, s))
   \<and> (isConnected s \<and> valid_imei i \<longrightarrow>
        (\<exists>k. connector s = Some k
           \<and> sendControl now rnd a i None s
               = (Returns,
                  s\<lparr>wire := wire s @ [(k, Control (correlation_id ''ctrl'' now rnd) a i None)]\<rparr>)
           \<and> sendControl now rnd a i (Some (JsonValue p)) s
               = (Returns,
                  s\<lparr>wire := wire s @ [(k, Control (correlation_id ''ctrl'' now rnd) a i (Some p))]\<rparr>)))
   \<and> (isConnected s \<longrightarrow> sendControl now rnd a i (Some (Unserialisable err)) s = (Throws err, s))
   \<and> (\<forall>e s'. sendControl now rnd a i ps s = (Throws e, s') \<longrightarrow> s' = s)
   \<and> (\<not> isConnected s \<or> i \<notin> imei ` set (getPairedWatches s) \<longrightarrow>
        (\<exists>e. sendPush now rnd i t s = (Throws e, s)))
   \<and> (\<not> valid_imei i \<and> (\<forall>w \<in> set (getPairedWatches s). valid_imei (imei w)) \<longrightarrow>
        (\<exists>e. sendPush now rnd i t s = (Throws e, s)))"
proof -
  have "\<exists>e. sendPush now rnd i t s = (Throws e, s)"
    if "\<not> valid_imei i" and "\<forall>w \<in> set (getPairedWatches s). valid_imei (imei w)"
  proof -
    from that have "i \<notin> imei ` set (pairedWatches s)"
      by (auto simp: getPairedWatches_def)
    then show ?thesis by (simp add: sendPush_throws)
  qed
  moreover have "\<forall>e s'. sendControl now rnd a i ps s = (Throws e, s') \<longrightarrow> s' = s"
    using sendControl_throws_unchanged by blast
  ultimately show ?thesis
    using sendControl_disconnected [of s now rnd a i ps] sendControl_connected [of s now rnd a i p err]
      sendPush_throws [of s i now rnd t]
    by (auto simp: getPairedWatches_def)
qed

theorem sendControl_disconnected_returns_witness:
  "\<not> isConnected (disconnect (run example_config [WsOpen 0] (connect example_config initial)))
   \<and> fst (sendControl 1700000000000 ''0.k3j9x2a8f'' ''unpair'' ''860000035452456'' None
        (disconnect (run example_config [WsOpen 0] (connect example_config initial)))) = Returns
   \<and> wire (snd (sendControl 1700000000000 ''0.k3j9x2a8f'' ''unpair'' ''860000035452456'' None
        (disconnect (run example_config [WsOpen 0] (connect example_config initial)))))
       = [(0, Register ''token'' ''openclaw-clawatch'' ''0.1.22'')]
   \<and> isConnected (run example_config [WsOpen 0] (connect example_config initial))
   \<and> valid_imei ''860000035452456''
   \<and> wire (snd (sendControl 1700000000000 ''0.k3j9x2a8f'' ''unpair'' ''860000035452456'' None
        (run example_config [WsOpen 0] (connect example_config initial))))
       = [(0, Register ''token'' ''openclaw-clawatch'' ''0.1.22''),
          (0, Control ''ctrl-1700000000000-k3j9x2a'' ''unpair'' ''860000035452456'' None)]
   \<and> \<not> valid_imei ''123''
   \<and> fst (sendPush 1700000000000 ''0.k3j9x2a8f'' ''123'' ''hi''
        (handleFrame example_config 0 (Registered [\<lparr>imei = ''860000035452456'', label = None\<rparr>])
          (run example_config [WsOpen 0] (connect example_config initial))))
       = Throws ''IMEI 123 not paired''
   \<and> wire (snd (sendPush 1700000000000 ''0.k3j9x2a8f'' ''123'' ''hi''
        (handleFrame example_config 0 (Registered [\<lparr>imei = ''860000035452456'', label = None\<rparr>])
          (run example_config [WsOpen 0] (connect example_config initial)))))
       = [(0, Register ''token'' ''openclaw-clawatch'' ''0.1.22'')]"
proof -
  let ?s = "run example_config [WsOpen 0] (connect example_config initial)"
  let ?r = "handleFrame example_config 0 (Registered [\<lparr>imei = ''860000035452456'', label = None\<rparr>]) ?s"
  have a: "\<not> isConnected (disconnect ?s)" and b: "isConnected ?s" and c: "connector ?s = Some 0"
    and d: "wire ?s = [(0, Register ''token'' ''openclaw-clawatch'' ''0.1.22'')]"
    and d': "wire (disconnect ?s) = [(0, Register ''token'' ''openclaw-clawatch'' ''0.1.22'')]"
    and e: "\<not> valid_imei ''123''" and e': "valid_imei ''860000035452456''"
    and f: "\<forall>w \<in> set (getPairedWatches ?r). valid_imei (imei w)"
    and g: "wire ?r = [(0, Register ''token'' ''openclaw-clawatch'' ''0.1.22'')]"
    and h: "isConnected ?r"
    by (simp_all add: all_defs valid_imei_def is_digit_def)
  have k: "decimal 1700000000000 = ''1700000000000''"
    by (simp add: decimal.simps)
  from sendControl_disconnected_returns [of "disconnect ?s" 1700000000000 "''0.k3j9x2a8f''" "''unpair''"
      "''860000035452456''" None] a d'
  have 1: "fst (sendControl 1700000000000 ''0.k3j9x2a8f'' ''unpair'' ''860000035452456'' None
        (disconnect ?s)) = Returns
     \<and> wire (snd (sendControl 1700000000000 ''0.k3j9x2a8f'' ''unpair'' ''860000035452456'' None
        (disconnect ?s))) = [(0, Register ''token'' ''openclaw-clawatch'' ''0.1.22'')]"
    by simp
  from sendControl_disconnected_returns [of ?s 1700000000000 "''0.k3j9x2a8f''" "''unpair''"
      "''860000035452456''" None] b c d e' k
  have 2: "wire (snd (sendControl 1700000000000 ''0.k3j9x2a8f'' ''unpair'' ''860000035452456'' None ?s))
       = [(0, Register ''token'' ''openclaw-clawatch'' ''0.1.22''),
          (0, Control ''ctrl-1700000000000-k3j9x2a'' ''unpair'' ''860000035452456'' None)]"
    by (simp add: correlation_id_def)
  from sendControl_disconnected_returns [of ?r 1700000000000 "''0.k3j9x2a8f''" "''unpair''"
      "''123''" None "''p''" "''err''" "''hi''"] e f
  obtain x where x: "sendPush 1700000000000 ''0.k3j9x2a8f'' ''123'' ''hi'' ?r = (Throws x, ?r)"
    by blast
  have "fst (sendPush 1700000000000 ''0.k3j9x2a8f'' ''123'' ''hi'' ?r) = Throws ''IMEI 123 not paired''"
    using h by (simp add: all_defs)
  with x g have 3: "fst (sendPush 1700000000000 ''0.k3j9x2a8f'' ''123'' ''hi'' ?r)
       = Throws ''IMEI 123 not paired''
     \<and> wire (snd (sendPush 1700000000000 ''0.k3j9x2a8f'' ''123'' ''hi'' ?r))
       = [(0, Register ''token'' ''openclaw-clawatch'' ''0.1.22'')]"
    by simp
  from a b e e' 1 2 3 show ?thesis by blast
qed

text \<open>
  C5 as stated fails: on a session that never connected, \<open>sendControl\<close> returns, with
  the state as it was, instead of rejecting.
\<close>

theorem sendControl_rejects_counterexample:
  "\<not> isConnected initial
   \<and> sendControl 1700000000000 ''0.k3j9x2a8f'' ''unpair'' ''860000035452456'' None initial
       = (Returns, initial)"
  by (simp add: isConnected_def sendControl_def initial_def)

end
